theory Spec2Isabelle
  imports Complex_Main
begin

section \<open>BusinessInsight API: a shallow embedding of \<^verbatim>\<open>main.py\<close>\<close>

text \<open>
  The handlers and fetch helpers of \<^verbatim>\<open>main.py\<close> are translated one by one. What the
  Python does beyond returning a value is explicit here:
  \<^item> an exception is the \<open>Inl\<close> side of a sum, and every \<^verbatim>\<open>try/except\<close> of the source is
    a \<open>case\<close> on that sum;
  \<^item> the libraries the code calls (\<^verbatim>\<open>requests\<close>, \<^verbatim>\<open>json\<close>, \<^verbatim>\<open>ElementTree\<close>, \<^verbatim>\<open>float\<close>,
    \<^verbatim>\<open>datetime.utcnow\<close>) are fields of an environment record \<open>env\<close>;
  \<^item> the module \<^verbatim>\<open>database\<close> that \<^verbatim>\<open>main.py\<close> imports is a record \<open>database\<close> of two
    functions over a store of any type;
  \<^item> the effects a handler has (HTTP requests issued, clock reads, writes attempted) are
    recorded in a \<open>world\<close> that every function takes and returns.

  A Python \<^verbatim>\<open>str\<close> is a \<open>string\<close> whose characters stand for the code points 0 to 255.
\<close>

subsection \<open>Python values\<close>

text \<open>A Python \<^verbatim>\<open>float\<close>: a finite value, an infinity (\<open>True\<close> for the negative one), or nan.\<close>

datatype pyfloat = Finite rat | Infinity bool | NaN

type_synonym timestamp = int

datatype pyval =
    PNone
  | PBool bool
  | PInt int
  | PFloat pyfloat
  | PStr string
  | PDatetime timestamp
  | PList "pyval list"
  | PDict "(string \<times> pyval) list"

text \<open>A \<^verbatim>\<open>dict\<close> with string keys, in insertion order.\<close>

type_synonym pydict = "(string \<times> pyval) list"

datatype exn =
    HTTPException int string
  | ValidationError
  | RequestException
  | HTTPError int
  | JSONDecodeError
  | AttributeError
  | ParseError
  | ValueError
  | OverflowError
  | DatabaseError

text \<open>Truth value testing, as \<^verbatim>\<open>not x\<close> and \<^verbatim>\<open>x or y\<close> use it.\<close>

fun truthy :: "pyval \<Rightarrow> bool" where
  "truthy PNone = False"
| "truthy (PBool b) = b"
| "truthy (PInt i) = (i \<noteq> 0)"
| "truthy (PFloat f) = (f \<noteq> Finite 0)"
| "truthy (PStr s) = (s \<noteq> [])"
| "truthy (PDatetime t) = True"
| "truthy (PList xs) = (xs \<noteq> [])"
| "truthy (PDict kvs) = (kvs \<noteq> [])"

text \<open>\<^verbatim>\<open>d.get(key, default)\<close>.\<close>

definition dict_get :: "pydict \<Rightarrow> string \<Rightarrow> pyval \<Rightarrow> pyval" where
  "dict_get d k dflt = (case map_of d k of None \<Rightarrow> dflt | Some v \<Rightarrow> v)"

text \<open>\<^verbatim>\<open>int(f)\<close> on a float truncates towards zero; it raises on an infinity and on nan.\<close>

fun int_of_float :: "pyfloat \<Rightarrow> exn + int" where
  "int_of_float (Finite r) = Inr (if 0 \<le> r then \<lfloor>r\<rfloor> else \<lceil>r\<rceil>)"
| "int_of_float (Infinity neg) = Inl OverflowError"
| "int_of_float NaN = Inl ValueError"

subsection \<open>Strings and slices\<close>

text \<open>\<^verbatim>\<open>str.isspace\<close> on one character, for the code points below 256.\<close>

definition isspace :: "char \<Rightarrow> bool" where
  "isspace c =
     (let n = (of_char c :: nat)
      in (9 \<le> n \<and> n \<le> 13) \<or> (28 \<le> n \<and> n \<le> 32) \<or> n = 133 \<or> n = 160)"

text \<open>\<^verbatim>\<open>s.strip()\<close>: leading and trailing whitespace removed.\<close>

definition strip :: "string \<Rightarrow> string" where
  "strip s = rev (dropWhile isspace (rev (dropWhile isspace s)))"

text \<open>\<^verbatim>\<open>s.lower()\<close> for the code points below 256.\<close>

definition lower_char :: "char \<Rightarrow> char" where
  "lower_char c =
     (let n = (of_char c :: nat)
      in if (65 \<le> n \<and> n \<le> 90) \<or> (192 \<le> n \<and> n \<le> 222 \<and> n \<noteq> 215)
         then char_of (n + 32) else c)"

definition lower :: "string \<Rightarrow> string" where
  "lower s = map lower_char s"

text \<open>\<^verbatim>\<open>s.startswith(p)\<close>.\<close>

definition startswith :: "string \<Rightarrow> string \<Rightarrow> bool" where
  "startswith s p = (take (length p) s = p)"

text \<open>The line boundaries of \<^verbatim>\<open>str.splitlines\<close> below code point 256.\<close>

definition is_linebreak :: "char \<Rightarrow> bool" where
  "is_linebreak c =
     (let n = (of_char c :: nat)
      in (10 \<le> n \<and> n \<le> 13) \<or> (28 \<le> n \<and> n \<le> 30) \<or> n = 133)"

text \<open>
  \<^verbatim>\<open>s.splitlines()\<close>: \<open>cur\<close> is the line read so far. A carriage return followed by a line
  feed is one boundary; a last line that is empty is not returned.
\<close>

fun splitlines_from :: "string \<Rightarrow> string \<Rightarrow> string list" where
  "splitlines_from cur [] = (if cur = [] then [] else [cur])"
| "splitlines_from cur [c] =
     (if is_linebreak c then [cur] else [cur @ [c]])"
| "splitlines_from cur (c # d # cs) =
     (if c = CHR 0x0D \<and> d = CHR 0x0A then cur # splitlines_from [] cs
      else if is_linebreak c then cur # splitlines_from [] (d # cs)
      else splitlines_from (cur @ [c]) (d # cs))"

definition splitlines :: "string \<Rightarrow> string list" where
  "splitlines s = splitlines_from [] s"

text \<open>\<^verbatim>\<open>s.split(sep)\<close> for a one-character separator: never an empty list.\<close>

fun split :: "char \<Rightarrow> string \<Rightarrow> string list" where
  "split sep [] = [[]]"
| "split sep (c # cs) =
     (if c = sep then [] # split sep cs
      else (case split sep cs of [] \<Rightarrow> [[c]] | f # fs \<Rightarrow> (c # f) # fs))"

text \<open>\<^verbatim>\<open>xs[:k]\<close> and \<^verbatim>\<open>xs[k:]\<close> for any integer \<open>k\<close>: a negative one counts from the end.\<close>

definition slice_to :: "'a list \<Rightarrow> int \<Rightarrow> 'a list" where
  "slice_to xs k = (if 0 \<le> k then take (nat k) xs else take (length xs - nat (- k)) xs)"

definition slice_from :: "'a list \<Rightarrow> int \<Rightarrow> 'a list" where
  "slice_from xs k = (if 0 \<le> k then drop (nat k) xs else drop (length xs - nat (- k)) xs)"

subsection \<open>The environment and the world\<close>

text \<open>
  What \<^verbatim>\<open>requests.get\<close> gives: an exception (no connection, a timeout), or a response
  with its status code and its body.
\<close>

datatype http_result = Failed | Response int string

text \<open>An element of an XML tree: its tag, its text (\<^verbatim>\<open>None\<close> when it has none), its children.\<close>

datatype element = Element string "string option" "element list"

text \<open>
  \<open>requests_get n url\<close> is the answer to the request for \<open>url\<close> issued after \<open>n\<close>
  earlier ones; \<open>json_loads\<close>, \<open>fromstring\<close> and \<open>float_of_str\<close> give \<open>None\<close> where the
  library raises; \<open>utcnow n\<close> is the value of the read of the clock that follows \<open>n\<close>
  earlier ones; \<open>coerce_datetime\<close> is what pydantic makes of a value that is not a
  \<^verbatim>\<open>datetime\<close> in a field of that type (\<open>None\<close> where it rejects the value).
\<close>

record env =
  requests_get :: "nat \<Rightarrow> string \<Rightarrow> http_result"
  quote :: "string \<Rightarrow> string"
  json_loads :: "string \<Rightarrow> pyval option"
  fromstring :: "string \<Rightarrow> element option"
  float_of_str :: "string \<Rightarrow> pyfloat option"
  utcnow :: "nat \<Rightarrow> timestamp"
  coerce_datetime :: "pyval \<Rightarrow> timestamp option"

text \<open>
  The world: the URLs requested so far and the calls of \<^verbatim>\<open>create_document\<close> made so far
  (both oldest first), the number of clock reads, and the document store.
\<close>

record 's world =
  http_log :: "string list"
  db_log :: "(string \<times> pydict) list"
  clock_reads :: nat
  store :: 's

text \<open>\<^verbatim>\<open>requests.get(url, timeout=10)\<close>.\<close>

definition http_get :: "env \<Rightarrow> string \<Rightarrow> 's world \<Rightarrow> http_result \<times> 's world" where
  "http_get e url w =
     (requests_get e (length (http_log w)) url, w\<lparr>http_log := http_log w @ [url]\<rparr>)"

text \<open>\<^verbatim>\<open>datetime.utcnow()\<close>.\<close>

definition read_clock :: "env \<Rightarrow> 's world \<Rightarrow> timestamp \<times> 's world" where
  "read_clock e w = (utcnow e (clock_reads w), w\<lparr>clock_reads := Suc (clock_reads w)\<rparr>)"

subsection \<open>The price fetcher\<close>

text \<open>
  The body of the \<^verbatim>\<open>try\<close> inside the loop of \<^verbatim>\<open>fetch_stooq_prices\<close>: the row is unpacked
  into exactly six fields, and the fields of the dict are converted in the order they
  are written.
\<close>

definition parse_row :: "env \<Rightarrow> string \<Rightarrow> exn + pydict" where
  "parse_row e row =
     (case split CHR '','' row of
        [date, open_, high, low, close, volume] \<Rightarrow>
          (case float_of_str e open_ of None \<Rightarrow> Inl ValueError | Some o_ \<Rightarrow>
          (case float_of_str e high of None \<Rightarrow> Inl ValueError | Some h \<Rightarrow>
          (case float_of_str e low of None \<Rightarrow> Inl ValueError | Some l \<Rightarrow>
          (case float_of_str e close of None \<Rightarrow> Inl ValueError | Some c \<Rightarrow>
          (case float_of_str e volume of None \<Rightarrow> Inl ValueError | Some v \<Rightarrow>
          (case int_of_float v of Inl x \<Rightarrow> Inl x | Inr n \<Rightarrow>
             Inr [(''date'', PStr date), (''open'', PFloat o_), (''high'', PFloat h),
                  (''low'', PFloat l), (''close'', PFloat c), (''volume'', PInt n)]))))))
      | _ \<Rightarrow> Inl ValueError)"

text \<open>The loop over the rows: \<open>rows\<close> is the list built so far; a row that raises is skipped.\<close>

fun parse_rows :: "env \<Rightarrow> string list \<Rightarrow> pydict list \<Rightarrow> pydict list" where
  "parse_rows e [] rows = rows"
| "parse_rows e (row # rest) rows =
     (case parse_row e row of
        Inl x \<Rightarrow> parse_rows e rest rows
      | Inr bar \<Rightarrow> parse_rows e rest (rows @ [bar]))"

text \<open>The rows the loop runs over: \<^verbatim>\<open>r.text.strip().splitlines()[1:][-limit:]\<close>.\<close>

definition data_rows :: "string \<Rightarrow> int \<Rightarrow> string list" where
  "data_rows body limit = slice_from (slice_from (splitlines (strip body)) 1) (- limit)"

text \<open>The URL of the price file: the ticker in lower case.\<close>

definition stooq_url :: "string \<Rightarrow> string" where
  "stooq_url ticker = (let s = lower ticker in ''https://stooq.com/q/d/l/?s='' @ s @ ''&i=d'')"

text \<open>
  The body of the outer \<^verbatim>\<open>try\<close> of \<^verbatim>\<open>fetch_stooq_prices\<close>, for a ticker that is there.
\<close>

definition stooq_try :: "env \<Rightarrow> string \<Rightarrow> int \<Rightarrow> 's world \<Rightarrow> (exn + pydict list) \<times> 's world" where
  "stooq_try e ticker limit w =
     (case http_get e (stooq_url ticker) w of
        (Failed, w') \<Rightarrow> (Inl RequestException, w')
      | (Response status_code body, w') \<Rightarrow>
          if status_code \<noteq> 200 \<or> body = [] \<or> startswith body ''<!DOCTYPE''
          then (Inr [], w')
          else (Inr (parse_rows e (data_rows body limit) []), w'))"

text \<open>
  \<^verbatim>\<open>fetch_stooq_prices(ticker, limit)\<close>. \<^verbatim>\<open>not ticker\<close> holds for \<^verbatim>\<open>None\<close> and for the empty
  string; any exception of the body gives the empty list.
\<close>

definition fetch_stooq_prices ::
  "env \<Rightarrow> string option \<Rightarrow> int \<Rightarrow> 's world \<Rightarrow> (exn + pydict list) \<times> 's world" where
  "fetch_stooq_prices e ticker limit w =
     (case ticker of
        None \<Rightarrow> (Inr [], w)
      | Some t \<Rightarrow>
          if t = [] then (Inr [], w)
          else (case stooq_try e t limit w of
                  (Inl x, w') \<Rightarrow> (Inr [], w')
                | (Inr rows, w') \<Rightarrow> (Inr rows, w')))"

subsection \<open>The encyclopedia fetcher\<close>

text \<open>
  The body of the \<^verbatim>\<open>try\<close> of \<^verbatim>\<open>fetch_wikipedia_summary\<close>: \<open>Some v\<close> when it returns \<open>v\<close>,
  \<open>None\<close> when it falls through (a status other than 200). \<^verbatim>\<open>data.get\<close> exists on a
  dict only.
\<close>

definition wikipedia_url :: "env \<Rightarrow> string \<Rightarrow> string" where
  "wikipedia_url e company =
     ''https://en.wikipedia.org/api/rest_v1/page/summary/'' @ quote e company"

definition wikipedia_try :: "env \<Rightarrow> string \<Rightarrow> 's world \<Rightarrow> (exn + pyval option) \<times> 's world" where
  "wikipedia_try e company w =
     (case http_get e (wikipedia_url e company) w of
        (Failed, w') \<Rightarrow> (Inl RequestException, w')
      | (Response status_code body, w') \<Rightarrow>
          if status_code = 200
          then (case json_loads e body of
                  None \<Rightarrow> (Inl JSONDecodeError, w')
                | Some (PDict data) \<Rightarrow> (Inr (Some (dict_get data ''extract'' (PStr []))), w')
                | Some _ \<Rightarrow> (Inl AttributeError, w'))
          else (Inr None, w'))"

definition fetch_wikipedia_summary :: "env \<Rightarrow> string \<Rightarrow> 's world \<Rightarrow> (exn + pyval) \<times> 's world" where
  "fetch_wikipedia_summary e company w =
     (case wikipedia_try e company w of
        (Inr (Some v), w') \<Rightarrow> (Inr v, w')
      | (Inr None, w') \<Rightarrow> (Inr (PStr []), w')
      | (Inl x, w') \<Rightarrow> (Inr (PStr []), w'))"

subsection \<open>The news feed fetcher\<close>

fun tag :: "element \<Rightarrow> string" where
  "tag (Element t x cs) = t"

fun text_of :: "element \<Rightarrow> string option" where
  "text_of (Element t x cs) = x"

fun children :: "element \<Rightarrow> element list" where
  "children (Element t x cs) = cs"

text \<open>\<^verbatim>\<open>el.find(name)\<close>: the first child with that tag.\<close>

definition find_child :: "element \<Rightarrow> string \<Rightarrow> element option" where
  "find_child el name = List.find (\<lambda>c. tag c = name) (children el)"

text \<open>\<^verbatim>\<open>root.findall(".//name")\<close>: the elements below the root with that tag, in document order.\<close>

fun descendants :: "element \<Rightarrow> element list" where
  "descendants (Element t x cs) = concat (map (\<lambda>c. c # descendants c) cs)"

definition findall_below :: "element \<Rightarrow> string \<Rightarrow> element list" where
  "findall_below el name = filter (\<lambda>c. tag c = name) (descendants el)"

text \<open>\<^verbatim>\<open>el.text if el is not None else dflt\<close>.\<close>

definition text_or :: "element option \<Rightarrow> pyval \<Rightarrow> pyval" where
  "text_or el dflt =
     (case el of
        None \<Rightarrow> dflt
      | Some c \<Rightarrow> (case text_of c of None \<Rightarrow> PNone | Some s \<Rightarrow> PStr s))"

text \<open>The dict appended for one item.\<close>

definition news_item :: "string \<Rightarrow> element \<Rightarrow> pydict" where
  "news_item company item =
     (let title_el = find_child item ''title'';
          link_el = find_child item ''link'';
          pub_el = find_child item ''pubDate'';
          source_el = find_child item ''source'';
          description_el = find_child item ''description''
      in [(''company'', PStr company),
          (''title'', text_or title_el (PStr [])),
          (''url'', text_or link_el (PStr [])),
          (''source'', text_or source_el (PStr ''Google News'')),
          (''published_at'', text_or pub_el (PStr [])),
          (''summary'', text_or description_el PNone),
          (''tags'', PList [])])"

text \<open>The loop over the items: \<open>items\<close> is the list built so far.\<close>

fun collect_items :: "string \<Rightarrow> element list \<Rightarrow> pydict list \<Rightarrow> pydict list" where
  "collect_items company [] items = items"
| "collect_items company (item # rest) items =
     collect_items company rest (items @ [news_item company item])"

text \<open>\<^verbatim>\<open>resp.raise_for_status()\<close> raises for the status codes 400 to 599.\<close>

definition raise_for_status :: "int \<Rightarrow> exn + unit" where
  "raise_for_status status_code =
     (if 400 \<le> status_code \<and> status_code < 600 then Inl (HTTPError status_code) else Inr ())"

text \<open>The body of the \<^verbatim>\<open>try\<close> of \<^verbatim>\<open>fetch_google_news_rss\<close>.\<close>

definition news_try ::
  "env \<Rightarrow> string \<Rightarrow> string \<Rightarrow> int \<Rightarrow> 's world \<Rightarrow> (exn + pydict list) \<times> 's world" where
  "news_try e company rss_url limit w =
     (case http_get e rss_url w of
        (Failed, w') \<Rightarrow> (Inl RequestException, w')
      | (Response status_code body, w') \<Rightarrow>
          (case raise_for_status status_code of
             Inl x \<Rightarrow> (Inl x, w')
           | Inr u \<Rightarrow>
               (case fromstring e body of
                  None \<Rightarrow> (Inl ParseError, w')
                | Some tree \<Rightarrow>
                    (Inr (collect_items company (slice_to (findall_below tree ''item'') limit) []),
                     w'))))"

text \<open>
  The URL of the feed. \<^verbatim>\<open>locale or "en-US"\<close> takes the default for \<^verbatim>\<open>None\<close> and for the
  empty string.
\<close>

definition news_url :: "env \<Rightarrow> string \<Rightarrow> string option \<Rightarrow> string" where
  "news_url e company locale =
     (let q = quote e company;
          hl = (case locale of None \<Rightarrow> ''en-US'' | Some l \<Rightarrow> if l = [] then ''en-US'' else l)
      in ''https://news.google.com/rss/search?q='' @ q @ ''&hl='' @ hl @ ''&gl=US&ceid=US:en'')"

text \<open>
  \<^verbatim>\<open>fetch_google_news_rss(company, locale, limit)\<close>: any exception of the body gives the
  empty list.
\<close>

definition fetch_google_news_rss ::
  "env \<Rightarrow> string \<Rightarrow> string option \<Rightarrow> int \<Rightarrow> 's world \<Rightarrow> (exn + pydict list) \<times> 's world" where
  "fetch_google_news_rss e company locale limit w =
     (case news_try e company (news_url e company locale) limit w of
        (Inl x, w') \<Rightarrow> (Inr [], w')
      | (Inr items, w') \<Rightarrow> (Inr items, w'))"

subsection \<open>Requests, responses and their validation\<close>

record search_request =
  req_company :: string
  req_ticker :: "string option"
  req_locale :: "string option"

record insight_response =
  company :: string
  summary :: string
  financials :: pydict
  market_trends :: "string list"
  competitors :: "pydict list"
  pricing :: pydict
  projections :: pydict
  prices :: "pydict list"
  last_refreshed :: timestamp

text \<open>
  What pydantic does with the value given for a field: a \<^verbatim>\<open>str\<close> field takes a string, a
  \<^verbatim>\<open>Dict[str, Any]\<close> field a dict, a \<^verbatim>\<open>List[...]\<close> field a list whose items all fit; a
  \<^verbatim>\<open>datetime\<close> field takes a datetime, and any other value as far as \<open>coerce_datetime\<close>
  of the environment accepts it. Anything else is a validation error.
\<close>

definition validate_str :: "pyval \<Rightarrow> exn + string" where
  "validate_str v = (case v of PStr s \<Rightarrow> Inr s | _ \<Rightarrow> Inl ValidationError)"

definition validate_dict :: "pyval \<Rightarrow> exn + pydict" where
  "validate_dict v = (case v of PDict d \<Rightarrow> Inr d | _ \<Rightarrow> Inl ValidationError)"

fun str_items :: "pyval list \<Rightarrow> string list option" where
  "str_items [] = Some []"
| "str_items (PStr s # vs) = map_option (Cons s) (str_items vs)"
| "str_items (v # vs) = None"

fun dict_items :: "pyval list \<Rightarrow> pydict list option" where
  "dict_items [] = Some []"
| "dict_items (PDict d # vs) = map_option (Cons d) (dict_items vs)"
| "dict_items (v # vs) = None"

definition validate_str_list :: "pyval \<Rightarrow> exn + string list" where
  "validate_str_list v =
     (case v of
        PList vs \<Rightarrow> (case str_items vs of None \<Rightarrow> Inl ValidationError | Some xs \<Rightarrow> Inr xs)
      | _ \<Rightarrow> Inl ValidationError)"

definition validate_dict_list :: "pyval \<Rightarrow> exn + pydict list" where
  "validate_dict_list v =
     (case v of
        PList vs \<Rightarrow> (case dict_items vs of None \<Rightarrow> Inl ValidationError | Some xs \<Rightarrow> Inr xs)
      | _ \<Rightarrow> Inl ValidationError)"

definition validate_datetime :: "env \<Rightarrow> pyval \<Rightarrow> exn + timestamp" where
  "validate_datetime e v =
     (case v of
        PDatetime t \<Rightarrow> Inr t
      | _ \<Rightarrow> (case coerce_datetime e v of None \<Rightarrow> Inl ValidationError | Some t \<Rightarrow> Inr t))"

text \<open>
  \<^verbatim>\<open>InsightResponse(company=..., ..., last_refreshed=...)\<close>: the record, when every field
  validates.
\<close>

definition InsightResponse ::
  "env \<Rightarrow> pyval \<Rightarrow> pyval \<Rightarrow> pyval \<Rightarrow> pyval \<Rightarrow> pyval \<Rightarrow> pyval \<Rightarrow> pyval \<Rightarrow> pyval \<Rightarrow> pyval
   \<Rightarrow> exn + insight_response" where
  "InsightResponse e c s f m k p j x t =
     (case (validate_str c, validate_str s, validate_dict f, validate_str_list m,
            validate_dict_list k, validate_dict p, validate_dict j, validate_dict_list x,
            validate_datetime e t) of
        (Inr c', Inr s', Inr f', Inr m', Inr k', Inr p', Inr j', Inr x', Inr t') \<Rightarrow>
          Inr \<lparr>company = c', summary = s', financials = f', market_trends = m',
               competitors = k', pricing = p', projections = j', prices = x',
               last_refreshed = t'\<rparr>
      | _ \<Rightarrow> Inl ValidationError)"

text \<open>
  The status code the framework answers with: 200, the code of an \<^verbatim>\<open>HTTPException\<close>, or
  500 for any other exception that leaves the handler.
\<close>

definition status_code_of :: "exn + 'a \<Rightarrow> int" where
  "status_code_of r =
     (case r of Inr v \<Rightarrow> 200 | Inl (HTTPException code detail) \<Rightarrow> code | Inl _ \<Rightarrow> 500)"

subsection \<open>The document store gateway\<close>

text \<open>
  The two functions \<^verbatim>\<open>main.py\<close> imports from the module \<^verbatim>\<open>database\<close>, over a store of
  type \<open>'s\<close>. \<^verbatim>\<open>create_document(collection, data)\<close> raises or returns, and leaves a store;
  \<^verbatim>\<open>get_documents(collection, filter, limit)\<close> raises or returns a list of documents.
\<close>

record 's database =
  create_document :: "string \<Rightarrow> pydict \<Rightarrow> 's \<Rightarrow> (exn + unit) \<times> 's"
  get_documents :: "string \<Rightarrow> pydict \<Rightarrow> int \<Rightarrow> 's \<Rightarrow> exn + pydict list"

text \<open>A call of \<^verbatim>\<open>create_document\<close>: the attempt is logged whether it raises or not.\<close>

definition db_create ::
  "'s database \<Rightarrow> string \<Rightarrow> pydict \<Rightarrow> 's world \<Rightarrow> (exn + unit) \<times> 's world" where
  "db_create db coll doc w =
     (case create_document db coll doc (store w) of
        (r, s') \<Rightarrow> (r, w\<lparr>db_log := db_log w @ [(coll, doc)], store := s'\<rparr>))"

subsection \<open>The search operation\<close>

text \<open>\<^verbatim>\<open>str(n)\<close> for a natural number.\<close>

fun str_nat :: "nat \<Rightarrow> string" where
  "str_nat n =
     (if n < 10 then [char_of (48 + n)]
      else str_nat (n div 10) @ [char_of (48 + n mod 10)])"

declare str_nat.simps [simp del]

definition financials_placeholder :: pydict where
  "financials_placeholder =
     [(''revenue'', PNone), (''profit_margin'', PNone), (''valuation'', PNone),
      (''note'', PStr ''Financial metrics require premium data sources. Showing available open data only.'')]"

definition market_trends_of :: "pydict list \<Rightarrow> string list" where
  "market_trends_of news_items =
     [''Media coverage: '' @ str_nat (length news_items) @ '' recent articles discovered'',
      ''Monitoring public sources for mentions and sentiment'']"

definition pricing_placeholder :: pydict where
  "pricing_placeholder =
     [(''model'', PStr ''Unknown''),
      (''notes'', PStr ''Pricing analysis requires domain-specific sources.'')]"

definition projections_placeholder :: pydict where
  "projections_placeholder =
     [(''outlook'', PStr ''Neutral''),
      (''assumptions'', PList [PStr ''Based on recent public signals only''])]"

text \<open>\<^verbatim>\<open>summary or f"No summary available for {company}."\<close>.\<close>

definition summary_or_default :: "string \<Rightarrow> pyval \<Rightarrow> pyval" where
  "summary_or_default company_name v =
     (if truthy v then v else PStr (''No summary available for '' @ company_name @ ''.''))"

text \<open>The dict \<^verbatim>\<open>snapshot\<close>, with \<open>t\<close> the value the clock gave.\<close>

definition snapshot_of :: "string \<Rightarrow> pyval \<Rightarrow> pydict list \<Rightarrow> timestamp \<Rightarrow> pydict" where
  "snapshot_of company_name summary_v news_items t =
     [(''company'', PStr company_name),
      (''summary'', summary_or_default company_name summary_v),
      (''financials'', PDict financials_placeholder),
      (''market_trends'', PList (map PStr (market_trends_of news_items))),
      (''competitors'', PList []),
      (''pricing'', PDict pricing_placeholder),
      (''projections'', PDict projections_placeholder),
      (''last_refreshed'', PDatetime t)]"

text \<open>The loop over the news items: each write is in a \<^verbatim>\<open>try\<close> of its own.\<close>

fun write_news :: "'s database \<Rightarrow> pydict list \<Rightarrow> 's world \<Rightarrow> 's world" where
  "write_news db [] w = w"
| "write_news db (n # rest) w =
     (case db_create db ''news'' n w of
        (Inl x, w') \<Rightarrow> write_news db rest w'
      | (Inr u, w') \<Rightarrow> write_news db rest w')"

definition opt_str :: "string option \<Rightarrow> pyval" where
  "opt_str s = (case s of None \<Rightarrow> PNone | Some v \<Rightarrow> PStr v)"

text \<open>
  The body of the outer \<^verbatim>\<open>try\<close> of \<^verbatim>\<open>run_search\<close>. The write of the snapshot is not in a
  \<^verbatim>\<open>try\<close> of its own: when it raises, the body is left.
\<close>

definition persist_try ::
  "env \<Rightarrow> 's database \<Rightarrow> string \<Rightarrow> string option \<Rightarrow> pyval \<Rightarrow> pydict list \<Rightarrow> 's world
   \<Rightarrow> (exn + unit) \<times> 's world" where
  "persist_try e db company_name loc summary_v news_items w =
     (case read_clock e w of
        (t, w1) \<Rightarrow>
          (case db_create db ''insight'' (snapshot_of company_name summary_v news_items t) w1 of
             (Inl x, w2) \<Rightarrow> (Inl x, w2)
           | (Inr u, w2) \<Rightarrow>
               (case db_create db ''companyquery''
                       [(''company'', PStr company_name), (''locale'', opt_str loc)]
                       (write_news db news_items w2) of
                  (Inl x, w3) \<Rightarrow> (Inr (), w3)
                | (Inr u', w3) \<Rightarrow> (Inr (), w3))))"

text \<open>The outer \<^verbatim>\<open>try/except\<close>: whatever the body raised is dropped.\<close>

definition persist ::
  "env \<Rightarrow> 's database \<Rightarrow> string \<Rightarrow> string option \<Rightarrow> pyval \<Rightarrow> pydict list \<Rightarrow> 's world
   \<Rightarrow> 's world" where
  "persist e db company_name loc summary_v news_items w =
     snd (persist_try e db company_name loc summary_v news_items w)"

text \<open>The \<^verbatim>\<open>return\<close> of \<^verbatim>\<open>run_search\<close>: the clock is read, then the response is validated.\<close>

definition respond ::
  "env \<Rightarrow> string \<Rightarrow> pyval \<Rightarrow> pydict list \<Rightarrow> pydict list \<Rightarrow> 's world
   \<Rightarrow> (exn + insight_response) \<times> 's world" where
  "respond e company_name summary_v news_items price_rows w =
     (case read_clock e w of
        (t, w') \<Rightarrow>
          (InsightResponse e (PStr company_name) (summary_or_default company_name summary_v)
             (PDict financials_placeholder) (PList (map PStr (market_trends_of news_items)))
             (PList []) (PDict pricing_placeholder) (PDict projections_placeholder)
             (PList (map PDict price_rows)) (PDatetime t),
           w'))"

text \<open>
  \<^verbatim>\<open>run_search(payload)\<close>. The three fetchers are called with their default limits (8 news
  items, 60 price rows); an exception of a callee would leave the handler.
\<close>

definition run_search ::
  "env \<Rightarrow> 's database \<Rightarrow> search_request \<Rightarrow> 's world \<Rightarrow> (exn + insight_response) \<times> 's world" where
  "run_search e db payload w =
     (let company_name = strip (req_company payload)
      in if company_name = [] then (Inl (HTTPException 400 ''Company is required''), w)
         else
           (case fetch_wikipedia_summary e company_name w of
              (Inl x, w1) \<Rightarrow> (Inl x, w1)
            | (Inr summary_v, w1) \<Rightarrow>
                (case fetch_google_news_rss e company_name (req_locale payload) 8 w1 of
                   (Inl x, w2) \<Rightarrow> (Inl x, w2)
                 | (Inr news_items, w2) \<Rightarrow>
                     (case fetch_stooq_prices e (req_ticker payload) 60 w2 of
                        (Inl x, w3) \<Rightarrow> (Inl x, w3)
                      | (Inr price_rows, w3) \<Rightarrow>
                          respond e company_name summary_v news_items price_rows
                            (persist e db company_name (req_locale payload) summary_v
                               news_items w3)))))"

subsection \<open>Reading insights back\<close>




subsection \<open>A document store as the specification describes it\<close>

text \<open>
  Modelled from the spec: the module \<^verbatim>\<open>database\<close> (\<^verbatim>\<open>create_document\<close>, \<^verbatim>\<open>get_documents\<close>)
  is not among the sources. The specification describes it as a gateway with
  \<^verbatim>\<open>createDocument(collectionName, document)\<close> and
  \<^verbatim>\<open>getDocuments(collectionName, filter, limit)\<close>: each write appends a new document (no
  update in place, no unique key), a read returns up to \<open>limit\<close> most recently stored
  documents of the collection that match the filter exactly, and both fail when the store
  is unavailable. The documents are kept oldest first, each with its collection.
\<close>

record doc_store =
  available :: bool
  documents :: "(string \<times> pydict) list"

definition matches :: "pydict \<Rightarrow> pydict \<Rightarrow> bool" where
  "matches flt d = list_all (\<lambda>(k, v). map_of d k = Some v) flt"

definition spec_create_document :: "string \<Rightarrow> pydict \<Rightarrow> doc_store \<Rightarrow> (exn + unit) \<times> doc_store" where
  "spec_create_document coll doc s =
     (if available s then (Inr (), s\<lparr>documents := documents s @ [(coll, doc)]\<rparr>)
      else (Inl DatabaseError, s))"

definition spec_get_documents :: "string \<Rightarrow> pydict \<Rightarrow> int \<Rightarrow> doc_store \<Rightarrow> exn + pydict list" where
  "spec_get_documents coll flt limit s =
     (if available s
      then Inr (take (nat limit)
                  (rev (map snd (filter (\<lambda>(c, d). c = coll \<and> matches flt d) (documents s)))))
      else Inl DatabaseError)"

definition spec_database :: "doc_store database" where
  "spec_database = \<lparr>create_document = spec_create_document, get_documents = spec_get_documents\<rparr>"

subsection \<open>Sample inputs\<close>

text \<open>
  A stand-in for \<^verbatim>\<open>float\<close> on the numerals the sample data uses: digits, with at most one
  point between them. Everything else is rejected.
\<close>

definition is_digit :: "char \<Rightarrow> bool" where
  "is_digit c = (48 \<le> (of_char c :: nat) \<and> (of_char c :: nat) \<le> 57)"

definition digits_value :: "string \<Rightarrow> nat" where
  "digits_value s = foldl (\<lambda>a c. 10 * a + (of_char c - 48)) 0 s"

definition decimal_float :: "string \<Rightarrow> pyfloat option" where
  "decimal_float s =
     (case split CHR ''.'' s of
        [i] \<Rightarrow> if i \<noteq> [] \<and> list_all is_digit i
               then Some (Finite (of_nat (digits_value i))) else None
      | [i, f] \<Rightarrow> if i \<noteq> [] \<and> f \<noteq> [] \<and> list_all is_digit (i @ f)
                  then Some (Finite (of_nat (digits_value (i @ f)) / 10 ^ length f)) else None
      | _ \<Rightarrow> None)"

text \<open>A price file with a header and ten rows; the third row has no opening price.\<close>

definition sample_csv :: string where
  "sample_csv = ''Date,Open,High,Low,Close,Volume\<newline>2024-01-02,10,11,9,10.5,1000\<newline>2024-01-03,10.5,12,10,11,1200\<newline>2024-01-04,N/A,12,10,11,1200\<newline>2024-01-05,11,12,10,11,900\<newline>2024-01-08,11,13,11,12,950.0\<newline>2024-01-09,12,13,11,12,1000\<newline>2024-01-10,12,13,11,12,1000\<newline>2024-01-11,12,13,11,12,1000\<newline>2024-01-12,12,13,11,12,1000\<newline>2024-01-15,12,13,11,12.25,1000\<newline>''"

text \<open>
  A feed with two items: the first has every child, the second has none. The sample
  parser knows this one document; any other body is malformed for it.
\<close>

definition sample_rss :: string where
  "sample_rss = ''<rss><channel><title>Acme - Google News</title><item><title>Acme ships anvils</title><link>https://example.org/1</link><pubDate>Mon, 01 Jan 2024 10:00:00 GMT</pubDate><description>Anvils.</description><source>The Gazette</source></item><item></item></channel></rss>''"

definition sample_tree :: element where
  "sample_tree =
     Element ''rss'' None
       [Element ''channel'' None
          [Element ''title'' (Some ''Acme - Google News'') [],
           Element ''item'' None
             [Element ''title'' (Some ''Acme ships anvils'') [],
              Element ''link'' (Some ''https://example.org/1'') [],
              Element ''pubDate'' (Some ''Mon, 01 Jan 2024 10:00:00 GMT'') [],
              Element ''description'' (Some ''Anvils.'') [],
              Element ''source'' (Some ''The Gazette'') []],
           Element ''item'' None []]]"

definition sample_fromstring :: "string \<Rightarrow> element option" where
  "sample_fromstring body = (if body = sample_rss then Some sample_tree else None)"

text \<open>The sample JSON parser knows the empty object only.\<close>

definition sample_json_loads :: "string \<Rightarrow> pyval option" where
  "sample_json_loads body = (if body = ''{}'' then Some (PDict []) else None)"

text \<open>
  The sample network: the encyclopedia answers with \<open>wiki\<close>, the news feed with \<open>news\<close>, the
  price endpoint with \<open>stooq\<close>; no other request gets through.
\<close>

definition sample_requests ::
  "http_result \<Rightarrow> http_result \<Rightarrow> http_result \<Rightarrow> nat \<Rightarrow> string \<Rightarrow> http_result" where
  "sample_requests wiki news stooq n url =
     (if url = ''https://en.wikipedia.org/api/rest_v1/page/summary/Acme'' then wiki
      else if url = ''https://news.google.com/rss/search?q=Acme&hl=en-US&gl=US&ceid=US:en'' then news
      else if url = ''https://stooq.com/q/d/l/?s=acme&i=d'' then stooq
      else Failed)"

definition sample_env :: "http_result \<Rightarrow> http_result \<Rightarrow> http_result \<Rightarrow> env" where
  "sample_env wiki news stooq =
     \<lparr>requests_get = sample_requests wiki news stooq,
      quote = (\<lambda>s. s),
      json_loads = sample_json_loads,
      fromstring = sample_fromstring,
      float_of_str = decimal_float,
      utcnow = (\<lambda>n. 1700000000 + int n),
      coerce_datetime = (\<lambda>v. None)\<rparr>"

text \<open>The encyclopedia is down (status 500); the feed and the price file arrive.\<close>

definition env1 :: env where
  "env1 = sample_env (Response 500 []) (Response 200 sample_rss) (Response 200 sample_csv)"

text \<open>
  The encyclopedia answers with an object that has no extract, the feed is cut off in the
  middle, and the price endpoint does not know the ticker.
\<close>

definition env2 :: env where
  "env2 = sample_env (Response 200 ''{}'') (Response 200 ''<rss><channel><item>'') (Response 404 [])"

text \<open>No connection to the encyclopedia; the feed and the price file arrive.\<close>

definition env3 :: env where
  "env3 = sample_env Failed (Response 200 sample_rss) (Response 200 sample_csv)"

definition sample_request :: search_request where
  "sample_request = \<lparr>req_company = ''  Acme '', req_ticker = Some ''ACME'', req_locale = None\<rparr>"

definition blank_request :: search_request where
  "blank_request = \<lparr>req_company = ''   '', req_ticker = Some ''ACME'', req_locale = None\<rparr>"

text \<open>A world in which nothing has happened yet, over an empty store that is available.\<close>

definition world0 :: "doc_store world" where
  "world0 = \<lparr>http_log = [], db_log = [], clock_reads = 0,
             store = \<lparr>available = True, documents = []\<rparr>\<rparr>"

text \<open>A gateway whose writes all fail, and one whose writes to one collection fail.\<close>

definition failing_database :: "doc_store database" where
  "failing_database =
     \<lparr>create_document = (\<lambda>coll doc s. (Inl DatabaseError, s)),
      get_documents = (\<lambda>coll flt limit s. Inl DatabaseError)\<rparr>"

definition failing_on :: "string \<Rightarrow> doc_store database" where
  "failing_on bad =
     \<lparr>create_document =
        (\<lambda>coll doc s. if coll = bad then (Inl DatabaseError, s) else spec_create_document coll doc s),
      get_documents = spec_get_documents\<rparr>"

section \<open>Properties\<close>

subsection \<open>Strings\<close>

lemma strip_blank: "(\<forall>c\<in>set s. isspace c) \<Longrightarrow> strip s = []"
  by (auto simp: strip_def dest: set_dropWhileD)

subsection \<open>A blank company is refused before anything is fetched\<close>

text \<open>
  Claim C2: when the company of the request is empty or all whitespace, \<^verbatim>\<open>run_search\<close>
  raises the \<^verbatim>\<open>HTTPException\<close> with status 400 and detail \<^verbatim>\<open>Company is required\<close>, and the
  world is the one it was called in: no request was issued to the encyclopedia, the
  news feed or the price endpoint, the clock was not read and nothing was written.
\<close>

theorem run_search_blank_company:
  assumes "\<forall>c\<in>set (req_company payload). isspace c"
  shows "run_search e db payload w = (Inl (HTTPException 400 ''Company is required''), w)
       \<and> status_code_of (fst (run_search e db payload w)) = 400
       \<and> http_log (snd (run_search e db payload w)) = http_log w"
  using strip_blank [OF assms] by (simp add: run_search_def status_code_of_def)

theorem run_search_blank_company_witness:
  "run_search env1 spec_database blank_request world0
       = (Inl (HTTPException 400 ''Company is required''), world0)
   \<and> status_code_of (fst (run_search env1 spec_database blank_request world0)) = 400
   \<and> http_log (snd (run_search env1 spec_database blank_request world0)) = []"
proof -
  have h: "\<forall>c\<in>set (req_company blank_request). isspace c"
    by (simp add: blank_request_def isspace_def)
  from run_search_blank_company [OF h, of env1 spec_database world0]
  show ?thesis by (simp add: world0_def status_code_of_def)
qed

subsection \<open>The price fetcher\<close>

text \<open>
  Claim C7: \<^verbatim>\<open>fetch_stooq_prices\<close> never raises: for every environment, ticker, limit and
  world it returns a list. For a ticker that is \<^verbatim>\<open>None\<close> or empty it returns the empty list
  in the world it was called in, so no request was issued. It returns the empty list also
  when the response has a status other than 200, an empty body, or a body that starts
  with \<^verbatim>\<open><!DOCTYPE\<close>.
\<close>

theorem fetch_stooq_prices_total:
  "(\<exists>rows w'. fetch_stooq_prices e ticker limit w = (Inr rows, w'))
   \<and> (ticker = None \<or> ticker = Some [] \<longrightarrow> fetch_stooq_prices e ticker limit w = (Inr [], w))
   \<and> (\<forall>t code body.
         ticker = Some t \<and> requests_get e (length (http_log w)) (stooq_url t) = Response code body
         \<and> (code \<noteq> 200 \<or> body = [] \<or> startswith body ''<!DOCTYPE'')
         \<longrightarrow> fst (fetch_stooq_prices e ticker limit w) = Inr [])"
  by (auto simp: fetch_stooq_prices_def stooq_try_def http_get_def
           split: option.splits http_result.splits sum.splits prod.splits)

theorem fetch_stooq_prices_total_witness:
  "fetch_stooq_prices env2 None 60 world0 = (Inr [], world0)
   \<and> fetch_stooq_prices env2 (Some []) 60 world0 = (Inr [], world0)
   \<and> requests_get env2 (length (http_log world0)) (stooq_url ''ACME'') = Response 404 []
   \<and> fst (fetch_stooq_prices env2 (Some ''ACME'') 60 world0) = Inr []"
proof -
  have l: "lower ''ACME'' = ''acme''"
    by code_simp
  have r: "requests_get env2 (length (http_log world0)) (stooq_url ''ACME'') = Response 404 []"
    by (simp add: env2_def sample_env_def sample_requests_def stooq_url_def l)
  from fetch_stooq_prices_total [of env2 None 60 world0]
       fetch_stooq_prices_total [of env2 "Some []" 60 world0]
       fetch_stooq_prices_total [of env2 "Some ''ACME''" 60 world0] r
  show ?thesis by simp
qed

lemma parse_rows_map_filter:
  "parse_rows e rs acc
     = acc @ List.map_filter (\<lambda>row. case parse_row e row of Inl x \<Rightarrow> None | Inr bar \<Rightarrow> Some bar) rs"
  by (induction rs arbitrary: acc) (auto simp: List.map_filter_simps split: sum.splits)

lemma map_filter_parsed:
  "List.map_filter (\<lambda>row. case parse_row e row of Inl x \<Rightarrow> None | Inr bar \<Rightarrow> Some bar) rs
     = map (\<lambda>r. projr (parse_row e r)) (filter (\<lambda>r. \<not> isl (parse_row e r)) rs)"
  by (induction rs) (auto simp: List.map_filter_simps split: sum.splits)

lemma parse_rows_parsed:
  "parse_rows e rs [] = map (\<lambda>r. projr (parse_row e r)) (filter (\<lambda>r. \<not> isl (parse_row e r)) rs)"
  by (simp add: parse_rows_map_filter map_filter_parsed)

lemma parse_row_field_count:
  "length (split CHR '','' row) \<noteq> 6 \<Longrightarrow> parse_row e row = Inl ValueError"
  by (auto simp: parse_row_def split: list.splits)

lemma parse_row_not_numeric:
  assumes "split CHR '','' row = [d, opn, h, l, c, v]"
      and "float_of_str e opn = None \<or> float_of_str e h = None \<or> float_of_str e l = None
           \<or> float_of_str e c = None \<or> float_of_str e v = None"
  shows "parse_row e row = Inl ValueError"
  using assms by (auto simp: parse_row_def split: option.splits)

lemma data_rows_all:
  "length (slice_from (splitlines (strip body)) 1) \<le> nat limit \<Longrightarrow> 0 < limit \<Longrightarrow>
   data_rows body limit = slice_from (splitlines (strip body)) 1"
  by (simp add: data_rows_def slice_from_def [of _ "- limit"])

lemma stooq_ok:
  assumes "t \<noteq> []"
      and "requests_get e (length (http_log w)) (stooq_url t) = Response 200 body"
      and "body \<noteq> []" and "\<not> startswith body ''<!DOCTYPE''"
  shows "fst (fetch_stooq_prices e (Some t) limit w)
           = Inr (map (\<lambda>r. projr (parse_row e r))
                    (filter (\<lambda>r. \<not> isl (parse_row e r)) (data_rows body limit)))"
  using assms by (simp add: fetch_stooq_prices_def stooq_try_def http_get_def parse_rows_parsed)

lemma filter_one_bad:
  assumes "isl (parse_row e bad)" and "list_all (\<lambda>r. \<not> isl (parse_row e r)) (pre @ post)"
  shows "filter (\<lambda>r. \<not> isl (parse_row e r)) (pre @ bad # post) = pre @ post"
  using assms by (simp add: list_all_iff filter_id_conv)

lemma parse_row_bar:
  assumes "split CHR '','' row = [d, opn, h, l, c, v]"
      and "float_of_str e opn = Some o'" and "float_of_str e h = Some h'"
      and "float_of_str e l = Some l'" and "float_of_str e c = Some c'"
      and "float_of_str e v = Some v'" and "int_of_float v' = Inr n"
  shows "parse_row e row
           = Inr [(''date'', PStr d), (''open'', PFloat o'), (''high'', PFloat h'),
                  (''low'', PFloat l'), (''close'', PFloat c'), (''volume'', PInt n)]"
  using assms by (simp add: parse_row_def)

lemma sample_bars:
  "map (parse_row env1)
     [''2024-01-02,10,11,9,10.5,1000'', ''2024-01-03,10.5,12,10,11,1200'',
      ''2024-01-05,11,12,10,11,900'', ''2024-01-08,11,13,11,12,950.0'',
      ''2024-01-09,12,13,11,12,1000'', ''2024-01-10,12,13,11,12,1000'',
      ''2024-01-11,12,13,11,12,1000'', ''2024-01-12,12,13,11,12,1000'',
      ''2024-01-15,12,13,11,12.25,1000'']
   = [Inr [(''date'', PStr ''2024-01-02''), (''open'', PFloat (Finite 10)),
           (''high'', PFloat (Finite 11)), (''low'', PFloat (Finite 9)),
           (''close'', PFloat (Finite (21 / 2))), (''volume'', PInt 1000)],
      Inr [(''date'', PStr ''2024-01-03''), (''open'', PFloat (Finite (21 / 2))),
           (''high'', PFloat (Finite 12)), (''low'', PFloat (Finite 10)),
           (''close'', PFloat (Finite 11)), (''volume'', PInt 1200)],
      Inr [(''date'', PStr ''2024-01-05''), (''open'', PFloat (Finite 11)),
           (''high'', PFloat (Finite 12)), (''low'', PFloat (Finite 10)),
           (''close'', PFloat (Finite 11)), (''volume'', PInt 900)],
      Inr [(''date'', PStr ''2024-01-08''), (''open'', PFloat (Finite 11)),
           (''high'', PFloat (Finite 13)), (''low'', PFloat (Finite 11)),
           (''close'', PFloat (Finite 12)), (''volume'', PInt 950)],
      Inr [(''date'', PStr ''2024-01-09''), (''open'', PFloat (Finite 12)),
           (''high'', PFloat (Finite 13)), (''low'', PFloat (Finite 11)),
           (''close'', PFloat (Finite 12)), (''volume'', PInt 1000)],
      Inr [(''date'', PStr ''2024-01-10''), (''open'', PFloat (Finite 12)),
           (''high'', PFloat (Finite 13)), (''low'', PFloat (Finite 11)),
           (''close'', PFloat (Finite 12)), (''volume'', PInt 1000)],
      Inr [(''date'', PStr ''2024-01-11''), (''open'', PFloat (Finite 12)),
           (''high'', PFloat (Finite 13)), (''low'', PFloat (Finite 11)),
           (''close'', PFloat (Finite 12)), (''volume'', PInt 1000)],
      Inr [(''date'', PStr ''2024-01-12''), (''open'', PFloat (Finite 12)),
           (''high'', PFloat (Finite 13)), (''low'', PFloat (Finite 11)),
           (''close'', PFloat (Finite 12)), (''volume'', PInt 1000)],
      Inr [(''date'', PStr ''2024-01-15''), (''open'', PFloat (Finite 12)),
           (''high'', PFloat (Finite 13)), (''low'', PFloat (Finite 11)),
           (''close'', PFloat (Finite (49 / 4))), (''volume'', PInt 1000)]]"
  by (simp add: parse_row_def env1_def sample_env_def decimal_float_def digits_value_def
        is_digit_def)

text \<open>
  Claim C6: for a response with status 200 and a body that is not empty and does not
  start with \<^verbatim>\<open><!DOCTYPE\<close>, \<^verbatim>\<open>fetch_stooq_prices\<close> returns the bars of exactly those data
  rows that parse, in their order: a row that raises is skipped and every other row is
  kept. A row raises when it does not split into six fields, and when one of its price or
  volume fields is not a number. The bar of a row of six fields whose last five are
  numbers, the volume a finite one, has the date as the row writes it, the four prices as
  floats and the volume as the integer \<open>int_of_float\<close> makes of its float. When the body
  has ten data rows, of which the third raises and the others parse, and the limit is at
  least 10, the result has nine bars: those of the rows other than the third.
\<close>

theorem fetch_stooq_prices_skips_bad_rows:
  assumes "t \<noteq> []"
      and "requests_get e (length (http_log w)) (stooq_url t) = Response 200 body"
      and "body \<noteq> []" and "\<not> startswith body ''<!DOCTYPE''"
  shows "fst (fetch_stooq_prices e (Some t) limit w)
           = Inr (map (\<lambda>r. projr (parse_row e r))
                    (filter (\<lambda>r. \<not> isl (parse_row e r)) (data_rows body limit)))
       \<and> (\<forall>row. length (split CHR '','' row) \<noteq> 6 \<longrightarrow> isl (parse_row e row))
       \<and> (\<forall>row d opn h l c v.
             split CHR '','' row = [d, opn, h, l, c, v]
             \<and> (float_of_str e opn = None \<or> float_of_str e h = None \<or> float_of_str e l = None
                \<or> float_of_str e c = None \<or> float_of_str e v = None)
             \<longrightarrow> isl (parse_row e row))
       \<and> (\<forall>pre bad post.
             slice_from (splitlines (strip body)) 1 = pre @ bad # post
             \<and> length pre = 2 \<and> length post = 7 \<and> 10 \<le> limit
             \<and> isl (parse_row e bad) \<and> list_all (\<lambda>r. \<not> isl (parse_row e r)) (pre @ post)
             \<longrightarrow> fst (fetch_stooq_prices e (Some t) limit w)
                   = Inr (map (\<lambda>r. projr (parse_row e r)) (pre @ post))
                 \<and> length (projr (fst (fetch_stooq_prices e (Some t) limit w))) = 9)
       \<and> (\<forall>row d opn h l c v o' h' l' c' v' n.
             split CHR '','' row = [d, opn, h, l, c, v]
             \<and> float_of_str e opn = Some o' \<and> float_of_str e h = Some h'
             \<and> float_of_str e l = Some l' \<and> float_of_str e c = Some c'
             \<and> float_of_str e v = Some v' \<and> int_of_float v' = Inr n
             \<longrightarrow> parse_row e row
                   = Inr [(''date'', PStr d), (''open'', PFloat o'), (''high'', PFloat h'),
                          (''low'', PFloat l'), (''close'', PFloat c'), (''volume'', PInt n)])"
proof -
  have a: "fst (fetch_stooq_prices e (Some t) limit w)
             = Inr (map (\<lambda>r. projr (parse_row e r))
                      (filter (\<lambda>r. \<not> isl (parse_row e r)) (data_rows body limit)))"
    by (rule stooq_ok [OF assms])
  have b: "\<forall>row. length (split CHR '','' row) \<noteq> 6 \<longrightarrow> isl (parse_row e row)"
    by (simp add: parse_row_field_count)
  have c: "\<forall>row d opn h l c v.
             split CHR '','' row = [d, opn, h, l, c, v]
             \<and> (float_of_str e opn = None \<or> float_of_str e h = None \<or> float_of_str e l = None
                \<or> float_of_str e c = None \<or> float_of_str e v = None)
             \<longrightarrow> isl (parse_row e row)"
    using parse_row_not_numeric [of _ _ _ _ _ _ _ e] by (metis sum.disc(1))
  have d: "fst (fetch_stooq_prices e (Some t) limit w)
                   = Inr (map (\<lambda>r. projr (parse_row e r)) (pre @ post))
                 \<and> length (projr (fst (fetch_stooq_prices e (Some t) limit w))) = 9"
    if h: "slice_from (splitlines (strip body)) 1 = pre @ bad # post"
          "length pre = 2" "length post = 7" "10 \<le> limit"
          "isl (parse_row e bad)" "list_all (\<lambda>r. \<not> isl (parse_row e r)) (pre @ post)"
    for pre bad post
  proof -
    have "data_rows body limit = pre @ bad # post"
      using h(1-4) data_rows_all [of body limit] by simp
    then have "filter (\<lambda>r. \<not> isl (parse_row e r)) (data_rows body limit) = pre @ post"
      using filter_one_bad [OF h(5,6)] by (simp only:)
    then show ?thesis
      unfolding a using h(2,3) by simp
  qed
  have f: "\<forall>row d opn h l c v o' h' l' c' v' n.
             split CHR '','' row = [d, opn, h, l, c, v]
             \<and> float_of_str e opn = Some o' \<and> float_of_str e h = Some h'
             \<and> float_of_str e l = Some l' \<and> float_of_str e c = Some c'
             \<and> float_of_str e v = Some v' \<and> int_of_float v' = Inr n
             \<longrightarrow> parse_row e row
                   = Inr [(''date'', PStr d), (''open'', PFloat o'), (''high'', PFloat h'),
                          (''low'', PFloat l'), (''close'', PFloat c'), (''volume'', PInt n)]"
    by (simp add: parse_row_bar)
  from a b c d f show ?thesis by blast
qed

theorem fetch_stooq_prices_skips_bad_rows_witness:
  "fst (fetch_stooq_prices env1 (Some ''ACME'') 60 world0)
     = Inr [[(''date'', PStr ''2024-01-02''), (''open'', PFloat (Finite 10)),
             (''high'', PFloat (Finite 11)), (''low'', PFloat (Finite 9)),
             (''close'', PFloat (Finite (21 / 2))), (''volume'', PInt 1000)],
            [(''date'', PStr ''2024-01-03''), (''open'', PFloat (Finite (21 / 2))),
             (''high'', PFloat (Finite 12)), (''low'', PFloat (Finite 10)),
             (''close'', PFloat (Finite 11)), (''volume'', PInt 1200)],
            [(''date'', PStr ''2024-01-05''), (''open'', PFloat (Finite 11)),
             (''high'', PFloat (Finite 12)), (''low'', PFloat (Finite 10)),
             (''close'', PFloat (Finite 11)), (''volume'', PInt 900)],
            [(''date'', PStr ''2024-01-08''), (''open'', PFloat (Finite 11)),
             (''high'', PFloat (Finite 13)), (''low'', PFloat (Finite 11)),
             (''close'', PFloat (Finite 12)), (''volume'', PInt 950)],
            [(''date'', PStr ''2024-01-09''), (''open'', PFloat (Finite 12)),
             (''high'', PFloat (Finite 13)), (''low'', PFloat (Finite 11)),
             (''close'', PFloat (Finite 12)), (''volume'', PInt 1000)],
            [(''date'', PStr ''2024-01-10''), (''open'', PFloat (Finite 12)),
             (''high'', PFloat (Finite 13)), (''low'', PFloat (Finite 11)),
             (''close'', PFloat (Finite 12)), (''volume'', PInt 1000)],
            [(''date'', PStr ''2024-01-11''), (''open'', PFloat (Finite 12)),
             (''high'', PFloat (Finite 13)), (''low'', PFloat (Finite 11)),
             (''close'', PFloat (Finite 12)), (''volume'', PInt 1000)],
            [(''date'', PStr ''2024-01-12''), (''open'', PFloat (Finite 12)),
             (''high'', PFloat (Finite 13)), (''low'', PFloat (Finite 11)),
             (''close'', PFloat (Finite 12)), (''volume'', PInt 1000)],
            [(''date'', PStr ''2024-01-15''), (''open'', PFloat (Finite 12)),
             (''high'', PFloat (Finite 13)), (''low'', PFloat (Finite 11)),
             (''close'', PFloat (Finite (49 / 4))), (''volume'', PInt 1000)]]
   \<and> length (projr (fst (fetch_stooq_prices env1 (Some ''ACME'') 60 world0))) = 9
   \<and> isl (parse_row env1 ''2024-01-04,N/A,12,10,11,1200'')
   \<and> isl (parse_row env1 ''2024-01-04,12,10,11,1200'')
   \<and> parse_row env1 ''2024-01-08,11,13,11,12,950.0''
       = Inr [(''date'', PStr ''2024-01-08''), (''open'', PFloat (Finite 11)),
              (''high'', PFloat (Finite 13)), (''low'', PFloat (Finite 11)),
              (''close'', PFloat (Finite 12)), (''volume'', PInt 950)]"
proof -
  have l: "lower ''ACME'' = ''acme''"
    by code_simp
  have r: "requests_get env1 (length (http_log world0)) (stooq_url ''ACME'')
             = Response 200 sample_csv"
    by (simp add: env1_def sample_env_def sample_requests_def stooq_url_def l)
  have n: "sample_csv \<noteq> []" "\<not> startswith sample_csv ''<!DOCTYPE''"
    by (simp_all add: sample_csv_def startswith_def)
  have rows: "slice_from (splitlines (strip sample_csv)) 1 =
      [''2024-01-02,10,11,9,10.5,1000'', ''2024-01-03,10.5,12,10,11,1200'']
      @ ''2024-01-04,N/A,12,10,11,1200''
      # [''2024-01-05,11,12,10,11,900'', ''2024-01-08,11,13,11,12,950.0'',
         ''2024-01-09,12,13,11,12,1000'', ''2024-01-10,12,13,11,12,1000'',
         ''2024-01-11,12,13,11,12,1000'', ''2024-01-12,12,13,11,12,1000'',
         ''2024-01-15,12,13,11,12.25,1000'']"
    by (simp add: sample_csv_def strip_def isspace_def splitlines_def is_linebreak_def
          slice_from_def)
  have f: "float_of_str env1 ''N/A'' = None"
    by (simp add: env1_def sample_env_def decimal_float_def is_digit_def)
  have s: "split CHR '','' ''2024-01-04,N/A,12,10,11,1200''
             = [''2024-01-04'', ''N/A'', ''12'', ''10'', ''11'', ''1200'']"
          "length (split CHR '','' ''2024-01-04,12,10,11,1200'') \<noteq> 6"
    by simp_all
  have g: "list_all (\<lambda>r. \<not> isl (parse_row env1 r))
      ([''2024-01-02,10,11,9,10.5,1000'', ''2024-01-03,10.5,12,10,11,1200'']
       @ [''2024-01-05,11,12,10,11,900'', ''2024-01-08,11,13,11,12,950.0'',
          ''2024-01-09,12,13,11,12,1000'', ''2024-01-10,12,13,11,12,1000'',
          ''2024-01-11,12,13,11,12,1000'', ''2024-01-12,12,13,11,12,1000'',
          ''2024-01-15,12,13,11,12.25,1000''])"
    using sample_bars by simp
  have ne: "''ACME'' \<noteq> []"
    by simp
  note t = fetch_stooq_prices_skips_bad_rows [OF ne r n, of 60]
  note t2 = t [THEN conjunct2, THEN conjunct1, rule_format]
  note t3 = t [THEN conjunct2, THEN conjunct2, THEN conjunct1, rule_format,
    of "''2024-01-04,N/A,12,10,11,1200''" "''2024-01-04''" "''N/A''" "''12''" "''10''" "''11''"
       "''1200''"]
  have b: "isl (parse_row env1 ''2024-01-04,N/A,12,10,11,1200'')"
    by (rule t3) (simp add: s f)
  have c: "isl (parse_row env1 ''2024-01-04,12,10,11,1200'')"
    by (rule t2) (rule s(2))
  have v: "split CHR '','' ''2024-01-08,11,13,11,12,950.0''
             = [''2024-01-08'', ''11'', ''13'', ''11'', ''12'', ''950.0'']"
          "float_of_str env1 ''11'' = Some (Finite 11)"
          "float_of_str env1 ''13'' = Some (Finite 13)"
          "float_of_str env1 ''12'' = Some (Finite 12)"
          "float_of_str env1 ''950.0'' = Some (Finite 950)"
          "int_of_float (Finite 950) = Inr 950"
    by (simp_all add: env1_def sample_env_def decimal_float_def digits_value_def is_digit_def)
  note t5 = t [THEN conjunct2, THEN conjunct2, THEN conjunct2, THEN conjunct2, rule_format,
    of "''2024-01-08,11,13,11,12,950.0''" "''2024-01-08''" "''11''" "''13''" "''11''" "''12''"
       "''950.0''" "Finite 11" "Finite 13" "Finite 11" "Finite 12" "Finite 950" 950]
  have p: "parse_row env1 ''2024-01-08,11,13,11,12,950.0''
       = Inr [(''date'', PStr ''2024-01-08''), (''open'', PFloat (Finite 11)),
              (''high'', PFloat (Finite 13)), (''low'', PFloat (Finite 11)),
              (''close'', PFloat (Finite 12)), (''volume'', PInt 950)]"
    by (rule t5) (simp add: v)
  note t4 = t [THEN conjunct2, THEN conjunct2, THEN conjunct2, THEN conjunct1, rule_format,
    of "[''2024-01-02,10,11,9,10.5,1000'', ''2024-01-03,10.5,12,10,11,1200'']"
       "''2024-01-04,N/A,12,10,11,1200''"
       "[''2024-01-05,11,12,10,11,900'', ''2024-01-08,11,13,11,12,950.0'',
         ''2024-01-09,12,13,11,12,1000'', ''2024-01-10,12,13,11,12,1000'',
         ''2024-01-11,12,13,11,12,1000'', ''2024-01-12,12,13,11,12,1000'',
         ''2024-01-15,12,13,11,12.25,1000'']"]
  have "fst (fetch_stooq_prices env1 (Some ''ACME'') 60 world0)
          = Inr (map (\<lambda>r. projr (parse_row env1 r))
                  ([''2024-01-02,10,11,9,10.5,1000'', ''2024-01-03,10.5,12,10,11,1200'']
                   @ [''2024-01-05,11,12,10,11,900'', ''2024-01-08,11,13,11,12,950.0'',
                      ''2024-01-09,12,13,11,12,1000'', ''2024-01-10,12,13,11,12,1000'',
                      ''2024-01-11,12,13,11,12,1000'', ''2024-01-12,12,13,11,12,1000'',
                      ''2024-01-15,12,13,11,12.25,1000'']))
         \<and> length (projr (fst (fetch_stooq_prices env1 (Some ''ACME'') 60 world0))) = 9"
  proof (rule t4)
    show "slice_from (splitlines (strip sample_csv)) 1 =
      [''2024-01-02,10,11,9,10.5,1000'', ''2024-01-03,10.5,12,10,11,1200'']
      @ ''2024-01-04,N/A,12,10,11,1200''
      # [''2024-01-05,11,12,10,11,900'', ''2024-01-08,11,13,11,12,950.0'',
         ''2024-01-09,12,13,11,12,1000'', ''2024-01-10,12,13,11,12,1000'',
         ''2024-01-11,12,13,11,12,1000'', ''2024-01-12,12,13,11,12,1000'',
         ''2024-01-15,12,13,11,12.25,1000'']
      \<and> length [''2024-01-02,10,11,9,10.5,1000'', ''2024-01-03,10.5,12,10,11,1200''] = 2
      \<and> length [''2024-01-05,11,12,10,11,900'', ''2024-01-08,11,13,11,12,950.0'',
         ''2024-01-09,12,13,11,12,1000'', ''2024-01-10,12,13,11,12,1000'',
         ''2024-01-11,12,13,11,12,1000'', ''2024-01-12,12,13,11,12,1000'',
         ''2024-01-15,12,13,11,12.25,1000''] = 7
      \<and> (10::int) \<le> 60
      \<and> isl (parse_row env1 ''2024-01-04,N/A,12,10,11,1200'')
      \<and> list_all (\<lambda>r. \<not> isl (parse_row env1 r))
      ([''2024-01-02,10,11,9,10.5,1000'', ''2024-01-03,10.5,12,10,11,1200'']
       @ [''2024-01-05,11,12,10,11,900'', ''2024-01-08,11,13,11,12,950.0'',
          ''2024-01-09,12,13,11,12,1000'', ''2024-01-10,12,13,11,12,1000'',
          ''2024-01-11,12,13,11,12,1000'', ''2024-01-12,12,13,11,12,1000'',
          ''2024-01-15,12,13,11,12.25,1000''])"
      using rows b g by (simp only: length_Cons list.size(3) simp_thms) simp
  qed
  with b c p sample_bars show ?thesis by simp
qed

subsection \<open>The news feed fetcher\<close>

lemma collect_items_map:
  "collect_items cname els items = items @ map (news_item cname) els"
  by (induction els arbitrary: items) simp_all

lemma news_ok:
  assumes "requests_get e (length (http_log w)) (news_url e cname locale) = Response code body"
      and "\<not> (400 \<le> code \<and> code < 600)"
      and "fromstring e body = Some tree"
  shows "fst (fetch_google_news_rss e cname locale limit w)
           = Inr (map (news_item cname) (slice_to (findall_below tree ''item'') limit))"
  using assms
  by (auto simp: fetch_google_news_rss_def news_try_def http_get_def raise_for_status_def
        collect_items_map)

text \<open>
  Claim C5: when parsing the body of the feed raises, \<^verbatim>\<open>fetch_google_news_rss\<close> returns the
  empty list, whatever the body holds before the place that is malformed: the tree is
  walked only after the whole body was parsed, so no item of such a body is returned. The
  one request was issued. The list is empty also when the request raises and when the
  status is one \<^verbatim>\<open>raise_for_status\<close> raises for.
\<close>

theorem fetch_google_news_rss_parse_error:
  assumes "requests_get e (length (http_log w)) (news_url e cname locale) = r"
      and "r = Failed
           \<or> (\<exists>code body. r = Response code body
                \<and> ((400 \<le> code \<and> code < 600) \<or> fromstring e body = None))"
  shows "fetch_google_news_rss e cname locale limit w
           = (Inr [], w\<lparr>http_log := http_log w @ [news_url e cname locale]\<rparr>)"
  using assms
  by (auto simp: fetch_google_news_rss_def news_try_def http_get_def raise_for_status_def)

theorem fetch_google_news_rss_parse_error_witness:
  "requests_get env2 (length (http_log world0)) (news_url env2 ''Acme'' None)
     = Response 200 ''<rss><channel><item>''
   \<and> fromstring env2 ''<rss><channel><item>'' = None
   \<and> fetch_google_news_rss env2 ''Acme'' None 8 world0
       = (Inr [], world0\<lparr>http_log := [news_url env2 ''Acme'' None]\<rparr>)"
proof -
  have r: "requests_get env2 (length (http_log world0)) (news_url env2 ''Acme'' None)
             = Response 200 ''<rss><channel><item>''"
    by (simp add: env2_def sample_env_def sample_requests_def news_url_def)
  have f: "fromstring env2 ''<rss><channel><item>'' = None"
    by (simp add: env2_def sample_env_def sample_fromstring_def sample_rss_def)
  from fetch_google_news_rss_parse_error [OF r, of 8] r f
  show ?thesis by (simp add: world0_def)
qed

text \<open>
  Claim C10: an item of the parsed feed among the first \<open>limit\<close> ones gets its dict in
  the result, whatever children it has, and the result has one dict for each of these
  items. In that dict a missing \<^verbatim>\<open>title\<close> gives the title \<^verbatim>\<open>""\<close>, a missing \<^verbatim>\<open>link\<close> the URL
  \<^verbatim>\<open>""\<close>, a missing \<^verbatim>\<open>pubDate\<close> the publication date \<^verbatim>\<open>""\<close>, a missing \<^verbatim>\<open>description\<close> the
  summary \<^verbatim>\<open>None\<close>, and a missing \<^verbatim>\<open>source\<close> the source \<^verbatim>\<open>Google News\<close>.
\<close>

theorem news_item_defaults:
  assumes "requests_get e (length (http_log w)) (news_url e cname locale) = Response code body"
      and "\<not> (400 \<le> code \<and> code < 600)"
      and "fromstring e body = Some tree"
      and "item \<in> set (slice_to (findall_below tree ''item'') limit)"
  shows "news_item cname item \<in> set (projr (fst (fetch_google_news_rss e cname locale limit w)))
       \<and> length (projr (fst (fetch_google_news_rss e cname locale limit w)))
           = length (slice_to (findall_below tree ''item'') limit)
       \<and> (find_child item ''title'' = None
            \<longrightarrow> map_of (news_item cname item) ''title'' = Some (PStr []))
       \<and> (find_child item ''link'' = None
            \<longrightarrow> map_of (news_item cname item) ''url'' = Some (PStr []))
       \<and> (find_child item ''pubDate'' = None
            \<longrightarrow> map_of (news_item cname item) ''published_at'' = Some (PStr []))
       \<and> (find_child item ''description'' = None
            \<longrightarrow> map_of (news_item cname item) ''summary'' = Some PNone)
       \<and> (find_child item ''source'' = None
            \<longrightarrow> map_of (news_item cname item) ''source'' = Some (PStr ''Google News''))"
  using assms(4) by (simp add: news_ok [OF assms(1-3)] news_item_def text_or_def)

theorem news_item_defaults_witness:
  "Element ''item'' None [] \<in> set (slice_to (findall_below sample_tree ''item'') 8)
   \<and> length (projr (fst (fetch_google_news_rss env1 ''Acme'' None 8 world0))) = 2
   \<and> [(''company'', PStr ''Acme''), (''title'', PStr []), (''url'', PStr []),
       (''source'', PStr ''Google News''), (''published_at'', PStr []), (''summary'', PNone),
       (''tags'', PList [])]
       \<in> set (projr (fst (fetch_google_news_rss env1 ''Acme'' None 8 world0)))"
proof -
  have r: "requests_get env1 (length (http_log world0)) (news_url env1 ''Acme'' None)
             = Response 200 sample_rss"
    by (simp add: env1_def sample_env_def sample_requests_def news_url_def)
  have f: "fromstring env1 sample_rss = Some sample_tree"
    by (simp add: env1_def sample_env_def sample_fromstring_def)
  have i: "slice_to (findall_below sample_tree ''item'') 8
             = [Element ''item'' None
                  [Element ''title'' (Some ''Acme ships anvils'') [],
                   Element ''link'' (Some ''https://example.org/1'') [],
                   Element ''pubDate'' (Some ''Mon, 01 Jan 2024 10:00:00 GMT'') [],
                   Element ''description'' (Some ''Anvils.'') [],
                   Element ''source'' (Some ''The Gazette'') []],
                Element ''item'' None []]"
    by (simp add: sample_tree_def findall_below_def slice_to_def)
  have n: "news_item ''Acme'' (Element ''item'' None [])
             = [(''company'', PStr ''Acme''), (''title'', PStr []), (''url'', PStr []),
                (''source'', PStr ''Google News''), (''published_at'', PStr []),
                (''summary'', PNone), (''tags'', PList [])]"
    by (simp add: news_item_def find_child_def text_or_def)
  have m: "Element ''item'' None [] \<in> set (slice_to (findall_below sample_tree ''item'') 8)"
    by (simp add: i)
  from news_item_defaults [OF r _ f m] i n m
  show ?thesis by simp
qed

subsection \<open>What the fetchers and the persistence step change in the world\<close>

lemma wiki_total: "\<exists>v. fst (fetch_wikipedia_summary e c w) = Inr v"
  by (auto simp: fetch_wikipedia_summary_def wikipedia_try_def http_get_def
           split: http_result.splits option.splits pyval.splits)

lemma wiki_world:
  "snd (fetch_wikipedia_summary e c w) = w\<lparr>http_log := http_log w @ [wikipedia_url e c]\<rparr>"
  by (auto simp: fetch_wikipedia_summary_def wikipedia_try_def http_get_def
           split: http_result.splits option.splits pyval.splits)

lemma wiki_cong:
  "length (http_log w) = length (http_log w') \<Longrightarrow>
   fst (fetch_wikipedia_summary e c w) = fst (fetch_wikipedia_summary e c w')"
  by (auto simp: fetch_wikipedia_summary_def wikipedia_try_def http_get_def
           split: http_result.splits option.splits pyval.splits)

lemma news_total: "\<exists>v. fst (fetch_google_news_rss e c loc limit w) = Inr v"
  by (auto simp: fetch_google_news_rss_def news_try_def http_get_def
           split: http_result.splits option.splits sum.splits)

lemma news_world:
  "snd (fetch_google_news_rss e c loc limit w)
     = w\<lparr>http_log := http_log w @ [news_url e c loc]\<rparr>"
  by (auto simp: fetch_google_news_rss_def news_try_def http_get_def
           split: http_result.splits option.splits sum.splits)

lemma news_cong:
  "length (http_log w) = length (http_log w') \<Longrightarrow>
   fst (fetch_google_news_rss e c loc limit w) = fst (fetch_google_news_rss e c loc limit w')"
  by (auto simp: fetch_google_news_rss_def news_try_def http_get_def
           split: http_result.splits option.splits sum.splits)

lemma stooq_total: "\<exists>v. fst (fetch_stooq_prices e t limit w) = Inr v"
  by (auto simp: fetch_stooq_prices_def stooq_try_def http_get_def
           split: http_result.splits option.splits sum.splits)

lemma stooq_world:
  "snd (fetch_stooq_prices e t limit w)
     = (case t of None \<Rightarrow> w
        | Some s \<Rightarrow> if s = [] then w else w\<lparr>http_log := http_log w @ [stooq_url s]\<rparr>)"
  by (auto simp: fetch_stooq_prices_def stooq_try_def http_get_def
           split: http_result.splits option.splits sum.splits)

lemma stooq_cong:
  "length (http_log w) = length (http_log w') \<Longrightarrow>
   fst (fetch_stooq_prices e t limit w) = fst (fetch_stooq_prices e t limit w')"
  by (auto simp: fetch_stooq_prices_def stooq_try_def http_get_def
           split: http_result.splits option.splits sum.splits)


lemma write_news_frame:
  "http_log (write_news db ns w) = http_log w"
  "clock_reads (write_news db ns w) = clock_reads w"
  "db_log (write_news db ns w) = db_log w @ map (Pair ''news'') ns"
  by (induction ns arbitrary: w; simp add: db_create_def split: prod.splits sum.splits)+

lemma persist_frame:
  "http_log (persist e db c loc sv news w) = http_log w"
  "clock_reads (persist e db c loc sv news w) = Suc (clock_reads w)"
  by (simp_all add: persist_def persist_try_def read_clock_def db_create_def write_news_frame
        split: prod.splits sum.splits)

lemma persist_db_log:
  "db_log (persist e db c loc sv news w)
     = db_log w
       @ (''insight'', snapshot_of c sv news (utcnow e (clock_reads w)))
       # (if isl (fst (create_document db ''insight''
                        (snapshot_of c sv news (utcnow e (clock_reads w))) (store w)))
          then []
          else map (Pair ''news'') news
               @ [(''companyquery'', [(''company'', PStr c), (''locale'', opt_str loc)])])"
  by (auto simp: persist_def persist_try_def read_clock_def db_create_def write_news_frame
        split: prod.splits sum.splits)

lemma str_items_map: "str_items (map PStr xs) = Some xs"
  by (induction xs) simp_all

lemma dict_items_map: "dict_items (map PDict xs) = Some xs"
  by (induction xs) simp_all

lemma respond_fst:
  "fst (respond e c sv news pr w)
     = (case summary_or_default c sv of
          PStr s \<Rightarrow>
            Inr \<lparr>company = c, summary = s, financials = financials_placeholder,
                 market_trends = market_trends_of news, competitors = [],
                 pricing = pricing_placeholder, projections = projections_placeholder,
                 prices = pr, last_refreshed = utcnow e (clock_reads w)\<rparr>
        | _ \<Rightarrow> Inl ValidationError)"
  by (simp add: respond_def read_clock_def InsightResponse_def validate_str_def
        validate_dict_def validate_str_list_def validate_dict_list_def validate_datetime_def
        str_items_map dict_items_map split: pyval.splits)

lemma respond_snd:
  "snd (respond e c sv news pr w) = w\<lparr>clock_reads := Suc (clock_reads w)\<rparr>"
  by (simp add: respond_def read_clock_def)

lemma run_search_eq:
  assumes "strip (req_company payload) \<noteq> []"
  shows "run_search e db payload w =
     (let c = strip (req_company payload);
          sv = projr (fst (fetch_wikipedia_summary e c w));
          w1 = snd (fetch_wikipedia_summary e c w);
          news = projr (fst (fetch_google_news_rss e c (req_locale payload) 8 w1));
          w2 = snd (fetch_google_news_rss e c (req_locale payload) 8 w1);
          pr = projr (fst (fetch_stooq_prices e (req_ticker payload) 60 w2));
          w3 = snd (fetch_stooq_prices e (req_ticker payload) 60 w2)
      in respond e c sv news pr (persist e db c (req_locale payload) sv news w3))"
proof -
  let ?c = "strip (req_company payload)"
  obtain sv w1 where a: "fetch_wikipedia_summary e ?c w = (Inr sv, w1)"
    using wiki_total [of e ?c w] by (metis prod.collapse)
  obtain news w2 where b: "fetch_google_news_rss e ?c (req_locale payload) 8 w1 = (Inr news, w2)"
    using news_total [of e ?c "req_locale payload" 8 w1] by (metis prod.collapse)
  obtain pr w3 where c: "fetch_stooq_prices e (req_ticker payload) 60 w2 = (Inr pr, w3)"
    using stooq_total [of e "req_ticker payload" 60 w2] by (metis prod.collapse)
  show ?thesis
    using assms by (simp add: run_search_def Let_def a b c)
qed

lemma fetched_clock:
  "clock_reads (snd (fetch_stooq_prices e t n3
      (snd (fetch_google_news_rss e c loc n2 (snd (fetch_wikipedia_summary e c w))))))
     = clock_reads w"
  by (simp add: stooq_world news_world wiki_world split: option.splits)

lemma fetched_db_log:
  "db_log (snd (fetch_stooq_prices e t n3
      (snd (fetch_google_news_rss e c loc n2 (snd (fetch_wikipedia_summary e c w))))))
     = db_log w"
  by (simp add: stooq_world news_world wiki_world split: option.splits)

lemma fetched_store:
  "store (snd (fetch_stooq_prices e t n3
      (snd (fetch_google_news_rss e c loc n2 (snd (fetch_wikipedia_summary e c w))))))
     = store w"
  by (simp add: stooq_world news_world wiki_world split: option.splits)

lemma respond_cong:
  "clock_reads w = clock_reads w' \<Longrightarrow>
   fst (respond e c sv news pr w) = fst (respond e c sv news pr w')"
  by (simp add: respond_def read_clock_def)

lemma sample_company: "strip (req_company sample_request) = ''Acme''"
  by (simp add: sample_request_def strip_def isspace_def)

lemma sample_wiki_down: "fst (fetch_wikipedia_summary env1 ''Acme'' w) = Inr (PStr [])"
  by (simp add: fetch_wikipedia_summary_def wikipedia_try_def http_get_def env1_def
        sample_env_def sample_requests_def wikipedia_url_def)

lemma sample_news:
  "fst (fetch_google_news_rss env1 ''Acme'' None 8 w)
     = Inr [[(''company'', PStr ''Acme''), (''title'', PStr ''Acme ships anvils''),
             (''url'', PStr ''https://example.org/1''), (''source'', PStr ''The Gazette''),
             (''published_at'', PStr ''Mon, 01 Jan 2024 10:00:00 GMT''),
             (''summary'', PStr ''Anvils.''), (''tags'', PList [])],
            [(''company'', PStr ''Acme''), (''title'', PStr []), (''url'', PStr []),
             (''source'', PStr ''Google News''), (''published_at'', PStr []),
             (''summary'', PNone), (''tags'', PList [])]]"
proof -
  have r: "requests_get env1 (length (http_log w)) (news_url env1 ''Acme'' None)
             = Response 200 sample_rss"
    by (simp add: env1_def sample_env_def sample_requests_def news_url_def)
  have f: "fromstring env1 sample_rss = Some sample_tree"
    by (simp add: env1_def sample_env_def sample_fromstring_def)
  show ?thesis
    by (simp add: news_ok [OF r _ f] sample_tree_def findall_below_def slice_to_def
          news_item_def find_child_def text_or_def)
qed

subsection \<open>The response does not depend on the persistence step\<close>

text \<open>
  Claim C1: the result of \<^verbatim>\<open>run_search\<close> (the response, or the exception that leaves the
  handler) and so its status code are the same for any two gateways and any two stores,
  of any kind, as long as the same number of requests and clock reads came before. In
  particular they are the same with a gateway whose writes raise, or a store that is
  unavailable, as with a gateway whose writes all succeed: no exception of the
  persistence step reaches the caller.
\<close>

theorem run_search_ignores_persistence:
  assumes "http_log w' = http_log w" and "clock_reads w' = clock_reads w"
  shows "fst (run_search e db payload w) = fst (run_search e db' payload w')
       \<and> status_code_of (fst (run_search e db payload w))
           = status_code_of (fst (run_search e db' payload w'))"
proof (cases "strip (req_company payload) = []")
  case True
  then show ?thesis by (simp add: run_search_def)
next
  case False
  let ?c = "strip (req_company payload)"
  let ?w1 = "snd (fetch_wikipedia_summary e ?c w)"
  let ?w1' = "snd (fetch_wikipedia_summary e ?c w')"
  let ?w2 = "snd (fetch_google_news_rss e ?c (req_locale payload) 8 ?w1)"
  let ?w2' = "snd (fetch_google_news_rss e ?c (req_locale payload) 8 ?w1')"
  have 1: "fst (fetch_wikipedia_summary e ?c w) = fst (fetch_wikipedia_summary e ?c w')"
    by (rule wiki_cong) (simp add: assms)
  have 2: "fst (fetch_google_news_rss e ?c (req_locale payload) 8 ?w1)
             = fst (fetch_google_news_rss e ?c (req_locale payload) 8 ?w1')"
    by (rule news_cong) (simp add: wiki_world assms)
  have 3: "fst (fetch_stooq_prices e (req_ticker payload) 60 ?w2)
             = fst (fetch_stooq_prices e (req_ticker payload) 60 ?w2')"
    by (rule stooq_cong) (simp add: news_world wiki_world assms)
  let ?sv = "projr (fst (fetch_wikipedia_summary e ?c w'))"
  let ?news = "projr (fst (fetch_google_news_rss e ?c (req_locale payload) 8 ?w1'))"
  let ?pr = "projr (fst (fetch_stooq_prices e (req_ticker payload) 60 ?w2'))"
  let ?w3 = "snd (fetch_stooq_prices e (req_ticker payload) 60 ?w2)"
  let ?w3' = "snd (fetch_stooq_prices e (req_ticker payload) 60 ?w2')"
  have "fst (run_search e db payload w)
          = fst (respond e ?c ?sv ?news ?pr (persist e db ?c (req_locale payload) ?sv ?news ?w3))"
    by (simp only: run_search_eq [OF False] Let_def 1 2 3)
  also have "\<dots> = fst (respond e ?c ?sv ?news ?pr
                         (persist e db' ?c (req_locale payload) ?sv ?news ?w3'))"
    by (rule respond_cong) (simp add: persist_frame fetched_clock assms)
  also have "\<dots> = fst (run_search e db' payload w')"
    by (simp only: run_search_eq [OF False] Let_def)
  finally show ?thesis by simp
qed

theorem run_search_ignores_persistence_witness:
  "create_document failing_database ''insight'' [] (store world0) = (Inl DatabaseError, store world0)
   \<and> fst (run_search env1 failing_database sample_request world0)
       = fst (run_search env1 spec_database sample_request world0)
   \<and> status_code_of (fst (run_search env1 failing_database sample_request world0)) = 200
   \<and> status_code_of (fst (run_search env1 spec_database sample_request world0)) = 200"
proof -
  have s: "status_code_of (fst (run_search env1 spec_database sample_request world0)) = 200"
    by (simp add: run_search_eq sample_company Let_def respond_fst sample_wiki_down
          summary_or_default_def status_code_of_def)
  have f: "create_document failing_database ''insight'' [] (store world0)
             = (Inl DatabaseError, store world0)"
    by (simp add: failing_database_def)
  from run_search_ignores_persistence
         [of world0 world0 env1 failing_database sample_request spec_database] s f
  show ?thesis by simp
qed

subsection \<open>The summary when the encyclopedia gives nothing\<close>

lemma wiki_empty_cases:
  "requests_get e (length (http_log w)) (wikipedia_url e c) = Failed
     \<Longrightarrow> fst (fetch_wikipedia_summary e c w) = Inr (PStr [])"
  "requests_get e (length (http_log w)) (wikipedia_url e c) = Response code body \<Longrightarrow> code \<noteq> 200
     \<Longrightarrow> fst (fetch_wikipedia_summary e c w) = Inr (PStr [])"
  "requests_get e (length (http_log w)) (wikipedia_url e c) = Response 200 body
     \<Longrightarrow> json_loads e body = Some (PDict data) \<Longrightarrow> map_of data ''extract'' = None
     \<Longrightarrow> fst (fetch_wikipedia_summary e c w) = Inr (PStr [])"
  by (simp_all add: fetch_wikipedia_summary_def wikipedia_try_def http_get_def dict_get_def)

lemma run_search_no_summary:
  assumes "strip (req_company payload) \<noteq> []"
      and "fst (fetch_wikipedia_summary e (strip (req_company payload)) w) = Inr (PStr [])"
  shows "\<exists>resp. fst (run_search e db payload w) = Inr resp
           \<and> summary resp = ''No summary available for '' @ strip (req_company payload) @ ''.''"
  by (simp add: run_search_eq [OF assms(1)] Let_def respond_fst assms(2) summary_or_default_def)

text \<open>
  Claim C8: for a company that is not blank, when \<^verbatim>\<open>fetch_wikipedia_summary\<close> returns the empty
  string, \<^verbatim>\<open>run_search\<close> returns a response whose summary is exactly
  \<^verbatim>\<open>No summary available for <company>.\<close> with the stripped company in it. The fetcher
  returns the empty string when the request raises (a timeout), when the status is not 200
  (500 for one), and when the body is a JSON object without the key \<^verbatim>\<open>extract\<close>.
\<close>

theorem run_search_default_summary:
  assumes "strip (req_company payload) = c" and "c \<noteq> []"
      and "requests_get e (length (http_log w)) (wikipedia_url e c) = r"
  shows "(fst (fetch_wikipedia_summary e c w) = Inr (PStr [])
            \<longrightarrow> (\<exists>resp. fst (run_search e db payload w) = Inr resp
                   \<and> summary resp = ''No summary available for '' @ c @ ''.''))
       \<and> (r = Failed \<longrightarrow> fst (fetch_wikipedia_summary e c w) = Inr (PStr []))
       \<and> (\<forall>code body. r = Response code body \<and> code \<noteq> 200
             \<longrightarrow> fst (fetch_wikipedia_summary e c w) = Inr (PStr []))
       \<and> (\<forall>body data. r = Response 200 body \<and> json_loads e body = Some (PDict data)
                        \<and> map_of data ''extract'' = None
             \<longrightarrow> fst (fetch_wikipedia_summary e c w) = Inr (PStr []))"
  using assms run_search_no_summary [of payload e w db] wiki_empty_cases [of e w c]
  by auto

theorem run_search_default_summary_witness:
  "requests_get env1 (length (http_log world0)) (wikipedia_url env1 ''Acme'') = Response 500 []
   \<and> (\<exists>resp. fst (run_search env1 spec_database sample_request world0) = Inr resp
         \<and> summary resp = ''No summary available for Acme.'')
   \<and> requests_get env2 (length (http_log world0)) (wikipedia_url env2 ''Acme'') = Response 200 ''{}''
   \<and> json_loads env2 ''{}'' = Some (PDict [])
   \<and> (\<exists>resp. fst (run_search env2 spec_database sample_request world0) = Inr resp
         \<and> summary resp = ''No summary available for Acme.'')
   \<and> requests_get env3 (length (http_log world0)) (wikipedia_url env3 ''Acme'') = Failed
   \<and> (\<exists>resp. fst (run_search env3 spec_database sample_request world0) = Inr resp
         \<and> summary resp = ''No summary available for Acme.'')"
proof -
  have r1: "requests_get env1 (length (http_log world0)) (wikipedia_url env1 ''Acme'')
              = Response 500 []"
    by (simp add: env1_def sample_env_def sample_requests_def wikipedia_url_def)
  have r2: "requests_get env2 (length (http_log world0)) (wikipedia_url env2 ''Acme'')
              = Response 200 ''{}''"
    by (simp add: env2_def sample_env_def sample_requests_def wikipedia_url_def)
  have j2: "json_loads env2 ''{}'' = Some (PDict [])"
    by (simp add: env2_def sample_env_def sample_json_loads_def)
  have r3: "requests_get env3 (length (http_log world0)) (wikipedia_url env3 ''Acme'') = Failed"
    by (simp add: env3_def sample_env_def sample_requests_def wikipedia_url_def)
  note t1 = run_search_default_summary [OF sample_company _ r1, of spec_database]
  note t2 = run_search_default_summary [OF sample_company _ r2, of spec_database]
  note t3 = run_search_default_summary [OF sample_company _ r3, of spec_database]
  have a1: "\<exists>resp. fst (run_search env1 spec_database sample_request world0) = Inr resp
              \<and> summary resp = ''No summary available for Acme.''"
    using t1 by simp
  have a2: "\<exists>resp. fst (run_search env2 spec_database sample_request world0) = Inr resp
              \<and> summary resp = ''No summary available for Acme.''"
    using t2 j2 by simp
  have a3: "\<exists>resp. fst (run_search env3 spec_database sample_request world0) = Inr resp
              \<and> summary resp = ''No summary available for Acme.''"
    using t3 by simp
  from r1 r2 j2 r3 a1 a2 a3 show ?thesis by simp
qed

subsection \<open>The snapshot and the response\<close>

lemma run_search_Inr_nonblank:
  "run_search e db payload w = (Inr resp, w') \<Longrightarrow> strip (req_company payload) \<noteq> []"
  by (auto simp: run_search_def)

lemma run_search_db_log:
  assumes "strip (req_company payload) \<noteq> []"
  shows "\<exists>sv news rest.
           db_log (snd (run_search e db payload w))
             = db_log w
               @ (''insight'',
                  snapshot_of (strip (req_company payload)) sv news (utcnow e (clock_reads w)))
               # rest
         \<and> fst (run_search e db payload w)
             = (case summary_or_default (strip (req_company payload)) sv of
                  PStr s \<Rightarrow>
                    Inr \<lparr>company = strip (req_company payload), summary = s,
                         financials = financials_placeholder,
                         market_trends = market_trends_of news, competitors = [],
                         pricing = pricing_placeholder, projections = projections_placeholder,
                         prices = projr (fst (fetch_stooq_prices e (req_ticker payload) 60
                           (snd (fetch_google_news_rss e (strip (req_company payload))
                              (req_locale payload) 8
                              (snd (fetch_wikipedia_summary e (strip (req_company payload)) w)))))),
                         last_refreshed = utcnow e (Suc (clock_reads w))\<rparr>
                | _ \<Rightarrow> Inl ValidationError)"
proof -
  let ?c = "strip (req_company payload)"
  let ?sv = "projr (fst (fetch_wikipedia_summary e ?c w))"
  let ?w1 = "snd (fetch_wikipedia_summary e ?c w)"
  let ?news = "projr (fst (fetch_google_news_rss e ?c (req_locale payload) 8 ?w1))"
  let ?w2 = "snd (fetch_google_news_rss e ?c (req_locale payload) 8 ?w1)"
  let ?pr = "projr (fst (fetch_stooq_prices e (req_ticker payload) 60 ?w2))"
  let ?w3 = "snd (fetch_stooq_prices e (req_ticker payload) 60 ?w2)"
  let ?p = "persist e db ?c (req_locale payload) ?sv ?news ?w3"
  have r: "run_search e db payload w = respond e ?c ?sv ?news ?pr ?p"
    by (simp only: run_search_eq [OF assms] Let_def)
  have c: "clock_reads ?p = Suc (clock_reads w)"
    by (simp add: persist_frame fetched_clock)
  have l: "\<exists>rest. db_log ?p
             = db_log w @ (''insight'', snapshot_of ?c ?sv ?news (utcnow e (clock_reads w))) # rest"
    by (simp add: persist_db_log fetched_clock fetched_db_log)
  have f: "fst (respond e ?c ?sv ?news ?pr ?p)
             = (case summary_or_default ?c ?sv of
                  PStr s \<Rightarrow>
                    Inr \<lparr>company = ?c, summary = s, financials = financials_placeholder,
                         market_trends = market_trends_of ?news, competitors = [],
                         pricing = pricing_placeholder, projections = projections_placeholder,
                         prices = ?pr, last_refreshed = utcnow e (Suc (clock_reads w))\<rparr>
                | _ \<Rightarrow> Inl ValidationError)"
    unfolding respond_fst c ..
  from l obtain rest where
    "db_log ?p = db_log w @ (''insight'', snapshot_of ?c ?sv ?news (utcnow e (clock_reads w))) # rest"
    by blast
  then show ?thesis
    unfolding r using f by (intro exI [of _ ?sv] exI [of _ ?news] exI [of _ rest])
      (simp add: respond_snd)
qed

text \<open>
  Claim C9: when \<^verbatim>\<open>run_search\<close> returns a response, the first write it attempted is the one
  of the snapshot to the collection \<^verbatim>\<open>insight\<close>, and the snapshot has the company, the
  summary, the financials, the market trends, the competitors, the pricing and the
  projections of the response. Its \<^verbatim>\<open>last_refreshed\<close> is the value of the first read of the
  clock and the one of the response is the value of the second read: where the clock gives
  two values to these reads, the two timestamps differ.
\<close>

theorem run_search_snapshot_agrees:
  assumes "run_search e db payload w = (Inr resp, w')"
  shows "\<exists>snap rest.
           db_log w' = db_log w @ (''insight'', snap) # rest
         \<and> map_of snap ''company'' = Some (PStr (company resp))
         \<and> map_of snap ''summary'' = Some (PStr (summary resp))
         \<and> map_of snap ''financials'' = Some (PDict (financials resp))
         \<and> map_of snap ''market_trends'' = Some (PList (map PStr (market_trends resp)))
         \<and> map_of snap ''competitors'' = Some (PList (map PDict (competitors resp)))
         \<and> map_of snap ''pricing'' = Some (PDict (pricing resp))
         \<and> map_of snap ''projections'' = Some (PDict (projections resp))
         \<and> map_of snap ''last_refreshed'' = Some (PDatetime (utcnow e (clock_reads w)))
         \<and> last_refreshed resp = utcnow e (Suc (clock_reads w))
         \<and> (utcnow e (clock_reads w) \<noteq> utcnow e (Suc (clock_reads w))
              \<longrightarrow> map_of snap ''last_refreshed'' \<noteq> Some (PDatetime (last_refreshed resp)))"
proof -
  let ?c = "strip (req_company payload)"
  from run_search_db_log [OF run_search_Inr_nonblank [OF assms], of e db w]
  obtain sv news rest where
    l: "db_log w' = db_log w @ (''insight'', snapshot_of ?c sv news (utcnow e (clock_reads w))) # rest"
    and f: "Inr resp
             = (case summary_or_default ?c sv of
                  PStr s \<Rightarrow>
                    Inr \<lparr>company = ?c, summary = s, financials = financials_placeholder,
                         market_trends = market_trends_of news, competitors = [],
                         pricing = pricing_placeholder, projections = projections_placeholder,
                         prices = projr (fst (fetch_stooq_prices e (req_ticker payload) 60
                           (snd (fetch_google_news_rss e ?c (req_locale payload) 8
                              (snd (fetch_wikipedia_summary e ?c w)))))),
                         last_refreshed = utcnow e (Suc (clock_reads w))\<rparr>
                | _ \<Rightarrow> Inl ValidationError)"
    unfolding assms fst_conv snd_conv by blast
  from f obtain s where s: "summary_or_default ?c sv = PStr s"
    and resp: "resp = \<lparr>company = ?c, summary = s, financials = financials_placeholder,
                         market_trends = market_trends_of news, competitors = [],
                         pricing = pricing_placeholder, projections = projections_placeholder,
                         prices = projr (fst (fetch_stooq_prices e (req_ticker payload) 60
                           (snd (fetch_google_news_rss e ?c (req_locale payload) 8
                              (snd (fetch_wikipedia_summary e ?c w)))))),
                         last_refreshed = utcnow e (Suc (clock_reads w))\<rparr>"
    by (auto split: pyval.splits)
  show ?thesis
    by (rule exI [of _ "snapshot_of ?c sv news (utcnow e (clock_reads w))"], rule exI [of _ rest])
       (simp add: l resp s snapshot_of_def)
qed

theorem run_search_snapshot_agrees_witness:
  "\<exists>snap rest.
      db_log (snd (run_search env1 spec_database sample_request world0)) = (''insight'', snap) # rest
    \<and> map_of snap ''company''
        = Some (PStr (company (projr (fst (run_search env1 spec_database sample_request world0)))))
    \<and> map_of snap ''summary''
        = Some (PStr (summary (projr (fst (run_search env1 spec_database sample_request world0)))))
    \<and> map_of snap ''last_refreshed'' = Some (PDatetime 1700000000)
    \<and> last_refreshed (projr (fst (run_search env1 spec_database sample_request world0)))
        = 1700000001"
proof -
  let ?R = "run_search env1 spec_database sample_request world0"
  have "\<exists>resp. fst ?R = Inr resp"
    using run_search_no_summary [of sample_request env1 world0 spec_database]
    by (auto simp: sample_company sample_wiki_down)
  then have h: "?R = (Inr (projr (fst ?R)), snd ?R)"
    by (metis prod.collapse sum.sel(2))
  have u: "utcnow env1 (clock_reads world0) = 1700000000"
          "utcnow env1 (Suc (clock_reads world0)) = 1700000001"
          "db_log world0 = []"
    by (simp_all add: env1_def sample_env_def world0_def)
  from run_search_snapshot_agrees [OF h] show ?thesis
    unfolding u by (elim exE conjE, intro exI conjI) simp_all
qed

subsection \<open>The writes of one search\<close>

lemma run_search_writes_attempted:
  assumes "strip (req_company payload) \<noteq> []"
  shows "db_log (snd (run_search e db payload w))
     = (let c = strip (req_company payload);
            sv = projr (fst (fetch_wikipedia_summary e c w));
            news = projr (fst (fetch_google_news_rss e c (req_locale payload) 8
                     (snd (fetch_wikipedia_summary e c w))));
            snap = snapshot_of c sv news (utcnow e (clock_reads w))
        in db_log w
           @ (''insight'', snap)
           # (if isl (fst (create_document db ''insight'' snap (store w))) then []
              else map (Pair ''news'') news
                   @ [(''companyquery'',
                       [(''company'', PStr c), (''locale'', opt_str (req_locale payload))])]))"
  by (simp add: run_search_eq [OF assms] Let_def respond_snd persist_db_log fetched_clock
        fetched_db_log fetched_store)

lemma sample_writes:
  "map fst (db_log (snd (run_search env1 db sample_request world0)))
     = (if isl (fst (create_document db ''insight''
                  (snapshot_of ''Acme'' (PStr [])
                     (projr (fst (fetch_google_news_rss env1 ''Acme'' None 8
                        (snd (fetch_wikipedia_summary env1 ''Acme'' world0)))))
                     1700000000)
                  \<lparr>available = True, documents = []\<rparr>))
        then [''insight''] else [''insight'', ''news'', ''news'', ''companyquery''])"
proof -
  have u: "utcnow env1 (clock_reads world0) = 1700000000" "db_log world0 = []"
          "store world0 = \<lparr>available = True, documents = []\<rparr>"
          "req_locale sample_request = None"
    by (simp_all add: env1_def sample_env_def world0_def sample_request_def)
  show ?thesis
    by (simp add: run_search_writes_attempted sample_company Let_def sample_wiki_down u
          sample_news)
qed

text \<open>
  Claim C3, as the specification states it, fails: the write of the insight document is
  not in a \<^verbatim>\<open>try\<close> of its own, so when it raises, the body of the outer \<^verbatim>\<open>try\<close> is left
  and neither the news writes nor the write of the query log are attempted. In the
  sample search the feed has two items; with a gateway that rejects the writes to
  \<^verbatim>\<open>insight\<close> only, the one write attempted is the one to \<^verbatim>\<open>insight\<close>, whereas four are
  attempted with a gateway that accepts them.
\<close>

theorem insight_write_failure_stops_writes:
  "length (projr (fst (fetch_google_news_rss env1 ''Acme'' None 8
             (snd (fetch_wikipedia_summary env1 ''Acme'' world0))))) = 2
   \<and> fst (create_document (failing_on ''insight'') ''news'' [] (store world0)) = Inr ()
   \<and> map fst (db_log (snd (run_search env1 (failing_on ''insight'') sample_request world0)))
       = [''insight'']
   \<and> map fst (db_log (snd (run_search env1 spec_database sample_request world0)))
       = [''insight'', ''news'', ''news'', ''companyquery'']"
proof -
  have "fst (create_document (failing_on ''insight'') ''news'' [] (store world0)) = Inr ()"
    by (simp add: failing_on_def spec_create_document_def world0_def)
  then show ?thesis
    by (simp add: sample_writes sample_news failing_on_def spec_database_def
          spec_create_document_def)
qed

text \<open>
  Claim C3, amended: for a company that is not blank, \<^verbatim>\<open>run_search\<close> first attempts the write
  of the snapshot to \<^verbatim>\<open>insight\<close>. When that write raises, it attempts no other write. When it
  returns, \<^verbatim>\<open>run_search\<close> attempts one write to \<^verbatim>\<open>news\<close> for every item fetched, in their
  order, and then the write of the query to \<^verbatim>\<open>companyquery\<close>, whatever any of these writes
  does: a news write or the query write that raises stops no later write.
\<close>

theorem run_search_writes:
  assumes "strip (req_company payload) = c" and "c \<noteq> []"
      and "fetch_wikipedia_summary e c w = (Inr sv, w1)"
      and "fetch_google_news_rss e c (req_locale payload) 8 w1 = (Inr news, w2)"
      and "snap = snapshot_of c sv news (utcnow e (clock_reads w))"
  shows "db_log (snd (run_search e db payload w))
           = db_log w
             @ (''insight'', snap)
             # (if isl (fst (create_document db ''insight'' snap (store w))) then []
                else map (Pair ''news'') news
                     @ [(''companyquery'',
                         [(''company'', PStr c), (''locale'', opt_str (req_locale payload))])])"
proof -
  have "strip (req_company payload) \<noteq> []"
    using assms(1,2) by simp
  from run_search_writes_attempted [OF this, of e db w] show ?thesis
    using assms by (simp add: Let_def)
qed

theorem run_search_writes_witness:
  "fst (create_document (failing_on ''news'') ''news'' [] (store world0)) = Inl DatabaseError
   \<and> db_log (snd (run_search env1 (failing_on ''news'') sample_request world0))
       = [(''insight'',
           snapshot_of ''Acme'' (PStr [])
             (projr (fst (fetch_google_news_rss env1 ''Acme'' None 8
                (snd (fetch_wikipedia_summary env1 ''Acme'' world0)))))
             1700000000),
          (''news'',
           [(''company'', PStr ''Acme''), (''title'', PStr ''Acme ships anvils''),
            (''url'', PStr ''https://example.org/1''), (''source'', PStr ''The Gazette''),
            (''published_at'', PStr ''Mon, 01 Jan 2024 10:00:00 GMT''),
            (''summary'', PStr ''Anvils.''), (''tags'', PList [])]),
          (''news'',
           [(''company'', PStr ''Acme''), (''title'', PStr []), (''url'', PStr []),
            (''source'', PStr ''Google News''), (''published_at'', PStr []),
            (''summary'', PNone), (''tags'', PList [])]),
          (''companyquery'', [(''company'', PStr ''Acme''), (''locale'', PNone)])]"
proof -
  let ?w1 = "snd (fetch_wikipedia_summary env1 ''Acme'' world0)"
  let ?news = "projr (fst (fetch_google_news_rss env1 ''Acme'' None 8 ?w1))"
  have a: "fetch_wikipedia_summary env1 ''Acme'' world0 = (Inr (PStr []), ?w1)"
    using sample_wiki_down [of world0] by (metis prod.collapse)
  have b: "fetch_google_news_rss env1 ''Acme'' (req_locale sample_request) 8 ?w1
             = (Inr ?news, snd (fetch_google_news_rss env1 ''Acme'' None 8 ?w1))"
    using sample_news [of ?w1] by (simp add: sample_request_def prod_eq_iff)
  have u: "utcnow env1 (clock_reads world0) = 1700000000" "db_log world0 = []"
          "store world0 = \<lparr>available = True, documents = []\<rparr>"
          "req_locale sample_request = None"
    by (simp_all add: env1_def sample_env_def world0_def sample_request_def)
  from run_search_writes [OF sample_company _ a b refl, of "failing_on ''news''"]
  show ?thesis
    by (simp add: u sample_news failing_on_def spec_create_document_def opt_str_def)
qed

subsection \<open>Reading a persisted insight back\<close>


















end
